theory Spec2Isabelle
  imports Main "HOL-Library.AList" "HOL-Library.Sublist"
begin

section \<open>Library functions the program calls\<close>

text \<open>
  The program is written in Go and calls its standard library: \<open>path/filepath\<close>,
  \<open>flag\<close>, \<open>os\<close>, \<open>io/ioutil\<close> and \<open>text/template\<close>. This section gives those
  functions as they behave on Unix, each with the part of its behaviour the program
  uses.
\<close>

subsection \<open>path/filepath on Unix: Base, Clean, Join\<close>

text \<open>
  Go strings are byte sequences, as \<open>string\<close> is. The separator is the slash and there
  is no volume name on Unix.
\<close>

definition Separator :: char where
  "Separator = CHR ''/''"

text \<open>
  \<open>filepath.Base\<close>: the empty path gives a dot; trailing separators are stripped; the
  part after the last separator is kept; a path of separators only gives one separator.
\<close>

definition strip_trailing :: "string \<Rightarrow> string" where
  "strip_trailing path = rev (dropWhile (\<lambda>c. c = Separator) (rev path))"

definition last_element :: "string \<Rightarrow> string" where
  "last_element path = rev (takeWhile (\<lambda>c. c \<noteq> Separator) (rev path))"

definition Base :: "string \<Rightarrow> string" where
  "Base path =
     (if path = [] then ''.''
      else let p = last_element (strip_trailing path)
           in if p = [] then [Separator] else p)"

text \<open>The elements of a path: the pieces between separators, empty pieces included.\<close>

fun split_sep :: "string \<Rightarrow> string list" where
  "split_sep [] = [[]]"
| "split_sep (c # cs) =
     (if c = Separator then [] # split_sep cs
      else (case split_sep cs of [] \<Rightarrow> [[c]] | x # xs \<Rightarrow> (c # x) # xs))"

fun join_sep :: "string list \<Rightarrow> string" where
  "join_sep [] = []"
| "join_sep [e] = e"
| "join_sep (e # es) = e @ Separator # join_sep es"

text \<open>
  \<open>filepath.Clean\<close> reads the path element by element and keeps the elements written so
  far (here a stack, last element first): an empty element and a dot are skipped; a
  dot-dot removes the last element written unless there is none or it is itself a kept
  dot-dot, in which case it is dropped in a rooted path and kept otherwise; any other
  element is written. An empty result becomes a dot.
\<close>

definition clean_element :: "bool \<Rightarrow> string list \<Rightarrow> string \<Rightarrow> string list" where
  "clean_element rooted out e =
     (if e = [] \<or> e = ''.'' then out
      else if e = ''..'' then
        (case out of
           [] \<Rightarrow> if rooted then out else e # out
         | t # ts \<Rightarrow> if t = ''..'' then (if rooted then out else e # out) else ts)
      else e # out)"

definition Clean :: "string \<Rightarrow> string" where
  "Clean path =
     (if path = [] then ''.''
      else let rooted = (hd path = Separator);
               out = rev (foldl (clean_element rooted) [] (split_sep path))
           in if rooted then Separator # join_sep out
              else if out = [] then ''.'' else join_sep out)"

text \<open>
  \<open>filepath.Join\<close>: leading empty elements are skipped, the rest is joined with
  separators and cleaned; when every element is empty the result is empty.
\<close>

fun Join :: "string list \<Rightarrow> string" where
  "Join [] = []"
| "Join (e # es) = (if e = [] then Join es else Clean (join_sep (e # es)))"

subsection \<open>flag: parsing string flags\<close>

datatype flag_error =
    ErrHelp
  | BadSyntax string
  | NotDefined string
  | NeedsArgument string

text \<open>
  A flag set is the list of the defined flags with their current values (each starts at
  its default) and the list of the flags that were set, \<open>actual\<close>.
\<close>

record FlagSet =
  formal :: "(string \<times> string) list"
  actual :: "string list"

definition flag_Set :: "FlagSet \<Rightarrow> string \<Rightarrow> string \<Rightarrow> FlagSet" where
  "flag_Set f name v =
     f\<lparr>formal := AList.update name v (formal f), actual := actual f @ [name]\<rparr>"

definition flag_String :: "FlagSet \<Rightarrow> string \<Rightarrow> string" where
  "flag_String f name = (case map_of (formal f) name of Some v \<Rightarrow> v | None \<Rightarrow> [])"

text \<open>
  The name of a flag argument may carry its value after an equals sign, which cannot be
  the first character of the name.
\<close>

definition split_value :: "string \<Rightarrow> string \<times> string option" where
  "split_value name =
     (case name of
        [] \<Rightarrow> ([], None)
      | c # cs \<Rightarrow>
          if CHR ''='' \<in> set cs
          then (c # takeWhile (\<lambda>x. x \<noteq> CHR ''='') cs,
                Some (tl (dropWhile (\<lambda>x. x \<noteq> CHR ''='') cs)))
          else (name, None))"

text \<open>
  \<open>parseOne\<close> reads one flag. An argument shorter than two bytes or without a leading
  minus is no flag and stays in the arguments; a double minus alone ends the flags and
  is dropped. The result is the error, or whether a flag was seen, with the flag set
  and the arguments left.
\<close>

definition parseOne ::
  "FlagSet \<Rightarrow> string list \<Rightarrow> flag_error + (bool \<times> FlagSet \<times> string list)" where
  "parseOne f args =
     (case args of
        [] \<Rightarrow> Inr (False, f, [])
      | s # rest \<Rightarrow>
          if length s < 2 \<or> hd s \<noteq> CHR ''-'' then Inr (False, f, args)
          else if s = ''--'' then Inr (False, f, rest)
          else
            let name0 = (if s ! 1 = CHR ''-'' then drop 2 s else drop 1 s) in
            if name0 = [] \<or> hd name0 = CHR ''-'' \<or> hd name0 = CHR ''=''
            then Inl (BadSyntax s)
            else
              let (name, val) = split_value name0 in
              (case map_of (formal f) name of
                 None \<Rightarrow>
                   if name = ''help'' \<or> name = ''h'' then Inl ErrHelp
                   else Inl (NotDefined name)
               | Some _ \<Rightarrow>
                   (case val of
                      Some v \<Rightarrow> Inr (True, flag_Set f name v, rest)
                    | None \<Rightarrow>
                        (case rest of
                           [] \<Rightarrow> Inl (NeedsArgument name)
                         | v # rest' \<Rightarrow> Inr (True, flag_Set f name v, rest')))))"

text \<open>
  \<open>FlagSet.Parse\<close> calls \<open>parseOne\<close> as long as it sees a flag. The result is the
  error, or the flag set with the remaining (positional) arguments.
\<close>

function Parse :: "FlagSet \<Rightarrow> string list \<Rightarrow> flag_error + (FlagSet \<times> string list)" where
  "Parse f args =
     (case parseOne f args of
        Inl e \<Rightarrow> Inl e
      | Inr (seen, f', args') \<Rightarrow> if seen then Parse f' args' else Inr (f', args'))"
  by pat_completeness auto
termination
  apply (relation "measure (\<lambda>(f, args). length args)")
   apply simp
  apply (auto simp: parseOne_def Let_def split: list.splits if_splits prod.splits option.splits)
  done

text \<open>
  With \<open>flag.ExitOnError\<close> a parse error ends the process: status 0 for the help
  request, 2 for any other error.
\<close>

definition flag_exit_status :: "flag_error \<Rightarrow> nat" where
  "flag_exit_status e = (case e of ErrHelp \<Rightarrow> 0 | _ \<Rightarrow> 2)"

subsection \<open>os: files and directories\<close>

datatype errno =
  ENOENT | EEXIST | ENOTDIR | EISDIR | ENOTEMPTY | EBUSY | EINVAL | EACCES | ENOSPC

datatype node = Directory | File string

text \<open>
  The file system is the working directory of the process and a table from the places
  of the tree to nodes. A place is the list of names that leads to it from the root;
  the root, the empty list, is always a directory. Permission bits and symbolic links
  are not in the table.
\<close>

record filesystem =
  cwd :: "string list"
  tree :: "(string list \<times> node) list"

definition node_at :: "filesystem \<Rightarrow> string list \<Rightarrow> node option" where
  "node_at fs k = (if k = [] then Some Directory else map_of (tree fs) k)"

definition set_node :: "filesystem \<Rightarrow> string list \<Rightarrow> node \<Rightarrow> filesystem" where
  "set_node fs k n = fs\<lparr>tree := AList.update k n (tree fs)\<rparr>"

definition del_node :: "filesystem \<Rightarrow> string list \<Rightarrow> filesystem" where
  "del_node fs k = fs\<lparr>tree := AList.delete k (tree fs)\<rparr>"

text \<open>
  The system resolves a path element by element, as it is written: the place reached
  so far must be a directory before the next element is taken, an empty element and
  \<open>.\<close> stay there, \<open>..\<close> goes to the parent (the root is its own parent), and a name
  goes down. The place of the last element need not exist. A path that starts with a
  separator is resolved from the root, any other from the working directory, and the
  empty path names nothing.
\<close>

fun walk :: "filesystem \<Rightarrow> string list \<Rightarrow> string list \<Rightarrow> errno + string list" where
  "walk fs cur [] = Inr cur"
| "walk fs cur (e # es) =
     (case node_at fs cur of
        None \<Rightarrow> Inl ENOENT
      | Some (File _) \<Rightarrow> Inl ENOTDIR
      | Some Directory \<Rightarrow>
          if e = [] \<or> e = ''.'' then walk fs cur es
          else if e = ''..'' then walk fs (butlast cur) es
          else walk fs (cur @ [e]) es)"

definition start :: "filesystem \<Rightarrow> string \<Rightarrow> string list" where
  "start fs path = (if hd path = Separator then [] else cwd fs)"

definition resolve :: "filesystem \<Rightarrow> string \<Rightarrow> errno + string list" where
  "resolve fs path =
     (if path = [] then Inl ENOENT else walk fs (start fs path) (split_sep path))"

text \<open>\<open>os.Stat\<close>, of which the callers use the kind of the node, or that there is none.\<close>

definition stat :: "filesystem \<Rightarrow> string \<Rightarrow> node option" where
  "stat fs path = (case resolve fs path of Inl e \<Rightarrow> None | Inr k \<Rightarrow> node_at fs k)"

text \<open>
  A system call can also fail for a reason the table does not show (a directory that
  cannot be written, a full disk). \<open>faults\<close> gives that failure for each call, by the
  path the call is given. A write that fails has written some of the bytes before: the
  fault of a write carries their number, and a number that is not below the length of
  the data stands for a close that fails after the last byte.
\<close>

record faults =
  mkdir_fault :: "string \<Rightarrow> errno option"
  remove_fault :: "string \<Rightarrow> errno option"
  open_fault :: "string \<Rightarrow> errno option"
  write_fault :: "string \<Rightarrow> (errno \<times> nat) option"

definition no_faults :: faults where
  "no_faults =
     \<lparr>mkdir_fault = (\<lambda>path. None), remove_fault = (\<lambda>path. None),
      open_fault = (\<lambda>path. None), write_fault = (\<lambda>path. None)\<rparr>"

text \<open>
  \<open>os.Mkdir\<close>: the system call skips separators at the end of the path, resolves it,
  and makes the directory when nothing is at its place.
\<close>

definition without_trailing :: "string list \<Rightarrow> string list" where
  "without_trailing es = rev (dropWhile (\<lambda>e. e = []) (rev es))"

definition Mkdir :: "faults \<Rightarrow> filesystem \<Rightarrow> string \<Rightarrow> errno option \<times> filesystem" where
  "Mkdir flt fs path =
     (case mkdir_fault flt path of
        Some e \<Rightarrow> (Some e, fs)
      | None \<Rightarrow>
          if path = [] then (Some ENOENT, fs)
          else
            (case walk fs (start fs path) (without_trailing (split_sep path)) of
               Inl e \<Rightarrow> (Some e, fs)
             | Inr k \<Rightarrow>
                 (case node_at fs k of
                    Some _ \<Rightarrow> (Some EEXIST, fs)
                  | None \<Rightarrow> (None, set_node fs k Directory))))"

text \<open>
  The path up to and including the separator before its last element (trailing
  separators skipped): \<open>path[:j]\<close> in \<open>os.MkdirAll\<close>. The parent is \<open>path[:j-1]\<close> when
  \<open>j > 1\<close>; otherwise there is no parent to make.
\<close>

definition upto_last_element :: "string \<Rightarrow> string" where
  "upto_last_element path =
     rev (dropWhile (\<lambda>c. c \<noteq> Separator) (rev (strip_trailing path)))"

text \<open>
  \<open>os.MkdirAll\<close>: nothing to do when the path is a directory; an error when it is a
  file; otherwise the parent is made first, by the same function on the text of the
  path, and then the directory itself, and a failure of that last step is no error when
  the directory is there after all. What was made before a failure stays.
\<close>

function MkdirAll :: "faults \<Rightarrow> filesystem \<Rightarrow> string \<Rightarrow> errno option \<times> filesystem" where
  "MkdirAll flt fs path =
     (case stat fs path of
        Some Directory \<Rightarrow> (None, fs)
      | Some (File _) \<Rightarrow> (Some ENOTDIR, fs)
      | None \<Rightarrow>
          (case (if length (upto_last_element path) > 1
                 then MkdirAll flt fs (butlast (upto_last_element path))
                 else (None, fs)) of
             (Some e, fs') \<Rightarrow> (Some e, fs')
           | (None, fs') \<Rightarrow>
               (case Mkdir flt fs' path of
                  (Some e, fs'') \<Rightarrow>
                    (case stat fs'' path of
                       Some Directory \<Rightarrow> (None, fs'')
                     | _ \<Rightarrow> (Some e, fs''))
                | (None, fs'') \<Rightarrow> (None, fs''))))"
  by pat_completeness auto
termination
proof (relation "measure (\<lambda>(flt, fs, path). length path)")
  show "wf (measure (\<lambda>(flt, fs, path). length path))"
    by simp
next
  fix flt :: faults and fs :: filesystem and path :: string
  assume long: "1 < length (upto_last_element path)"
  have "length (upto_last_element path) \<le> length (strip_trailing path)"
    unfolding upto_last_element_def
    using length_dropWhile_le [of "\<lambda>c. c \<noteq> Separator" "rev (strip_trailing path)"] by simp
  moreover have "length (strip_trailing path) \<le> length path"
    unfolding strip_trailing_def
    using length_dropWhile_le [of "\<lambda>c. c = Separator" "rev path"] by simp
  ultimately show "((flt, fs, butlast (upto_last_element path)), (flt, fs, path))
      \<in> measure (\<lambda>(flt, fs, path). length path)"
    using long by simp
qed

text \<open>
  \<open>os.Remove\<close> removes a file or an empty directory: not the root, and not a
  directory named by \<open>.\<close> as the last element.
\<close>

definition last_name :: "string \<Rightarrow> string" where
  "last_name path =
     (case rev (without_trailing (split_sep path)) of [] \<Rightarrow> [] | e # es \<Rightarrow> e)"

definition has_entries :: "filesystem \<Rightarrow> string list \<Rightarrow> bool" where
  "has_entries fs dir = list_ex (\<lambda>(k, n). prefix dir k \<and> k \<noteq> dir) (tree fs)"

definition Remove :: "faults \<Rightarrow> filesystem \<Rightarrow> string \<Rightarrow> errno option \<times> filesystem" where
  "Remove flt fs path =
     (case remove_fault flt path of
        Some e \<Rightarrow> (Some e, fs)
      | None \<Rightarrow>
          (case resolve fs path of
             Inl e \<Rightarrow> (Some e, fs)
           | Inr k \<Rightarrow>
               (case node_at fs k of
                  None \<Rightarrow> (Some ENOENT, fs)
                | Some (File _) \<Rightarrow> (None, del_node fs k)
                | Some Directory \<Rightarrow>
                    if k = [] then (Some EBUSY, fs)
                    else if last_name path = ''.'' then (Some EINVAL, fs)
                    else if has_entries fs k then (Some ENOTEMPTY, fs)
                    else (None, del_node fs k))))"

text \<open>
  \<open>ioutil.WriteFile\<close> opens the file for writing, which makes it when it is not there
  and empties it when it is, writes the data and closes the file. When the write fails
  the file stays, with the bytes that were written.
\<close>

definition WriteFile ::
  "faults \<Rightarrow> filesystem \<Rightarrow> string \<Rightarrow> string \<Rightarrow> errno option \<times> filesystem" where
  "WriteFile flt fs path data =
     (case open_fault flt path of
        Some e \<Rightarrow> (Some e, fs)
      | None \<Rightarrow>
          (case resolve fs path of
             Inl e \<Rightarrow> (Some e, fs)
           | Inr k \<Rightarrow>
               (case node_at fs k of
                  Some Directory \<Rightarrow> (Some EISDIR, fs)
                | _ \<Rightarrow>
                    (case write_fault flt path of
                       Some (e, n) \<Rightarrow> (Some e, set_node fs k (File (take n data)))
                     | None \<Rightarrow> (None, set_node fs k (File data))))))"

subsection \<open>text/template: text and field actions\<close>

datatype piece = Text string | Field string

text \<open>
  The template is text with actions between double braces. The only action the
  program's template uses is a field of the data, a dot followed by the field's name; any
  other action, and an action that is not closed, is a parse error here.
\<close>

definition action :: "string \<Rightarrow> piece option" where
  "action a =
     (case a of
        c # name \<Rightarrow>
          if c = CHR ''.'' \<and> name \<noteq> [] \<and> CHR '' '' \<notin> set name \<and> CHR ''.'' \<notin> set name
          then Some (Field name) else None
      | [] \<Rightarrow> None)"

fun template_Parse :: "bool \<Rightarrow> string \<Rightarrow> string \<Rightarrow> piece list option" where
  "template_Parse in_action acc [] = (if in_action then None else Some [Text (rev acc)])"
| "template_Parse False acc [c] = Some [Text (rev (c # acc))]"
| "template_Parse True acc [c] = None"
| "template_Parse False acc (c # d # cs) =
     (if c = CHR ''{'' \<and> d = CHR ''{''
      then map_option ((#) (Text (rev acc))) (template_Parse True [] cs)
      else template_Parse False (c # acc) (d # cs))"
| "template_Parse True acc (c # d # cs) =
     (if c = CHR ''}'' \<and> d = CHR ''}''
      then (case action (rev acc) of
              None \<Rightarrow> None
            | Some p \<Rightarrow> map_option ((#) p) (template_Parse False [] cs))
      else template_Parse True (c # acc) (d # cs))"

text \<open>Executing writes the text and the value of each field; a missing field is an error.\<close>

fun template_Execute :: "piece list \<Rightarrow> (string \<rightharpoonup> string) \<Rightarrow> string option" where
  "template_Execute [] data = Some []"
| "template_Execute (Text s # ps) data = map_option ((@) s) (template_Execute ps data)"
| "template_Execute (Field n # ps) data =
     (case data n of
        None \<Rightarrow> None
      | Some v \<Rightarrow> map_option ((@) v) (template_Execute ps data))"

subsection \<open>os: the environment\<close>

type_synonym environ = "string \<rightharpoonup> string"

text \<open>\<open>os.Getenv\<close> gives the empty string for a variable that is not present.\<close>

definition Getenv :: "environ \<Rightarrow> string \<Rightarrow> string" where
  "Getenv env key = (case env key of None \<Rightarrow> [] | Some v \<Rightarrow> v)"

section \<open>init.go\<close>

text \<open>
  The file holds two implementations of the init command. The first (lines 1 to 162)
  has the flags \<open>-g\<close>, \<open>-n\<close> and \<open>-p\<close> and the fixed root \<open>/work/gofml\<close>; the second
  (lines 163 to 327) has the flags \<open>-g\<close> and \<open>-n\<close> and reads its root from the
  environment. Their definitions carry the suffixes \<open>_1\<close> and \<open>_2\<close>.
\<close>

text \<open>
  Go errors: a message made by \<open>errors.New\<close>, a failed system call, or a template that
  does not parse or does not execute.
\<close>

datatype error =
    ErrorString string
  | PathError errno
  | TemplateParseError
  | TemplateExecError

text \<open>
  A call either ends the process (a flag error under \<open>flag.ExitOnError\<close>), or returns
  an error, or returns a value.
\<close>

datatype 'a outcome = Exits flag_error | Fails error | Returns 'a

subsection \<open>First implementation\<close>

record InitTask_1 =
  GoPath_1 :: string
  ImportPath_1 :: string
  ProjectName_1 :: string
  ProjectPath_1 :: string

definition flags_1 :: FlagSet where
  "flags_1 = \<lparr>formal = [(''g'', []), (''n'', []), (''p'', [])], actual = []\<rparr>"

definition NewInitTask_1 :: "string list \<Rightarrow> InitTask_1 outcome" where
  "NewInitTask_1 args =
     (case Parse flags_1 args of
        Inl e \<Rightarrow> Exits e
      | Inr (flags, args') \<Rightarrow>
          (case args' of
             [] \<Rightarrow> Fails (ErrorString ''no import path specified'')
           | a0 # _ \<Rightarrow>
               let task = \<lparr>GoPath_1 = flag_String flags ''g'',
                           ImportPath_1 = a0,
                           ProjectName_1 = flag_String flags ''n'',
                           ProjectPath_1 = flag_String flags ''p''\<rparr>;
                   task = (if ProjectName_1 task = []
                           then task\<lparr>ProjectName_1 := Base (ImportPath_1 task)\<rparr> else task);
                   task = (if GoPath_1 task = []
                           then task\<lparr>GoPath_1 := Join [''/work/gofml'', ProjectName_1 task]\<rparr>
                           else task);
                   task = (if ProjectPath_1 task = []
                           then task\<lparr>ProjectPath_1 :=
                                  Join [GoPath_1 task, ''src'', ImportPath_1 task]\<rparr>
                           else task)
               in Returns task))"

subsection \<open>Second implementation\<close>

definition getGofmlRoot :: "environ \<Rightarrow> string" where
  "getGofmlRoot env =
     (let root = Getenv env ''GOFMLROOT''
      in if root = [] then ''~/gofml'' else root)"

record InitTask_2 =
  GoFmlRoot_2 :: string
  ImportPath_2 :: string
  ProjectName_2 :: string
  GoFmlPath_2 :: string
  ProjectPath_2 :: string

definition flags_2 :: "environ \<Rightarrow> FlagSet" where
  "flags_2 env = \<lparr>formal = [(''g'', getGofmlRoot env), (''n'', [])], actual = []\<rparr>"

definition NewInitTask_2 :: "environ \<Rightarrow> string list \<Rightarrow> InitTask_2 outcome" where
  "NewInitTask_2 env args =
     (case Parse (flags_2 env) args of
        Inl e \<Rightarrow> Exits e
      | Inr (flags, args') \<Rightarrow>
          (case args' of
             [] \<Rightarrow> Fails (ErrorString ''no import path specified'')
           | a0 # _ \<Rightarrow>
               let task = \<lparr>GoFmlRoot_2 = flag_String flags ''g'',
                           ImportPath_2 = a0,
                           ProjectName_2 = flag_String flags ''n'',
                           GoFmlPath_2 = [],
                           ProjectPath_2 = []\<rparr>;
                   task = (if ProjectName_2 task = []
                           then task\<lparr>ProjectName_2 := Base (ImportPath_2 task)\<rparr> else task);
                   task = (if GoFmlPath_2 task = []
                           then task\<lparr>GoFmlPath_2 :=
                                  Join [GoFmlRoot_2 task, ProjectName_2 task]\<rparr>
                           else task);
                   task = (if ProjectPath_2 task = []
                           then task\<lparr>ProjectPath_2 :=
                                  Join [GoFmlPath_2 task, ''src'', ImportPath_2 task]\<rparr>
                           else task)
               in Returns task))"

subsection \<open>The world a task runs in\<close>

text \<open>
  What is written to standard error, one item for each write: the usage text rendered
  by \<open>usage()\<close>; the messages of \<open>Main\<close>, which are \<open>gofml: unrecognized command %s\<close> with
  the argument, \<open>gofml: failed to parse command %s\<close> with the descriptor of the command
  and \<open>gofml: error running command: %s\<close> with the error; and what the flag package
  prints for a flag error, its message and the usage of the flag set (by its name).
  The descriptor is given to \<open>%s\<close> as a pointer to the structure, and what is written
  for it is the value of each of its fields: the name, the usage line, the short and
  the long help text, which the item keeps in this order, and the address of the
  factory, which it leaves out.
\<close>

datatype stderr_item =
    UsageText
  | UnrecognizedCommand string
  | FailedToParseCommand string string string string
  | ErrorRunningCommand error
  | FlagErrorMessage flag_error
  | FlagSetUsage string

record world =
  disk :: filesystem
  stdout :: "string list"
  stderr :: "stderr_item list"

definition Print :: "string \<Rightarrow> world \<Rightarrow> world" where
  "Print s w = w\<lparr>stdout := stdout w @ [s]\<rparr>"

definition lift_errno :: "errno option \<Rightarrow> error option" where
  "lift_errno e = map_option PathError e"

subsection \<open>First implementation: running the task\<close>

definition script_1 :: string where
  \<open>script_1 = ''\<newline>export GOFML={{.ImportPath}}\<newline>export GOPATH={{.GoPath}}\<newline>export PATH="$GOPATH/bin:$PATH"\<newline>''\<close>

definition fields_1 :: "InitTask_1 \<Rightarrow> string \<rightharpoonup> string" where
  "fields_1 task =
     [''GoPath'' \<mapsto> GoPath_1 task, ''ImportPath'' \<mapsto> ImportPath_1 task,
      ''ProjectName'' \<mapsto> ProjectName_1 task, ''ProjectPath'' \<mapsto> ProjectPath_1 task]"

definition makeDir_1 :: "faults \<Rightarrow> InitTask_1 \<Rightarrow> world \<Rightarrow> error option \<times> world" where
  "makeDir_1 flt task w =
     (let (e, fs) = MkdirAll flt (disk w) (ProjectPath_1 task);
          w = w\<lparr>disk := fs\<rparr>;
          w = Print (''gofml: create project directory '' @ ProjectPath_1 task @ ''\<newline>'') w
      in (lift_errno e, w))"

definition writeEnvrc_1 :: "faults \<Rightarrow> InitTask_1 \<Rightarrow> world \<Rightarrow> error option \<times> world" where
  "writeEnvrc_1 flt task w =
     (case template_Parse False [] script_1 of
        None \<Rightarrow> (Some TemplateParseError, w)
      | Some scriptTemplate \<Rightarrow>
          (case template_Execute scriptTemplate (fields_1 task) of
             None \<Rightarrow> (Some TemplateExecError, w)
           | Some buf \<Rightarrow>
               let (_, fs) = Remove flt (disk w) (Join [GoPath_1 task, ''.envrc'']);
                   (e, fs) = WriteFile flt fs (Join [GoPath_1 task, ''.envrc'']) buf;
                   w = w\<lparr>disk := fs\<rparr>;
                   w = Print (''gofml: wrote activation script at ''
                          @ Join [GoPath_1 task, ''.envrc''] @ ''\<newline>'') w
               in (lift_errno e, w)))"

definition printHints_1 :: "InitTask_1 \<Rightarrow> world \<Rightarrow> error option \<times> world" where
  "printHints_1 task w =
     (None, Print (''gofml: now do `cd '' @ ProjectPath_1 task
        @ ''` to goto your project and then `direnv allow` to activate the direnv file. \<newline>'') w)"

definition Run_1 :: "InitTask_1 \<Rightarrow> faults \<Rightarrow> world \<Rightarrow> error option \<times> world" where
  "Run_1 task flt w =
     (let w = Print ''gofml: initializing...\<newline>'' w;
          w = Print (''ImportPath='' @ ImportPath_1 task @ '' \<newline>'') w;
          w = Print (''ProjectName='' @ ProjectName_1 task @ '' \<newline>'') w;
          w = Print (''ProjectPath='' @ ProjectPath_1 task @ '' \<newline>'') w;
          w = Print (''GoPath='' @ GoPath_1 task @ '' \<newline>'') w
      in case makeDir_1 flt task w of
           (Some e, w) \<Rightarrow> (Some e, w)
         | (None, w) \<Rightarrow>
             (case writeEnvrc_1 flt task w of
                (Some e, w) \<Rightarrow> (Some e, w)
              | (None, w) \<Rightarrow>
                  (case printHints_1 task w of
                     (Some e, w) \<Rightarrow> (Some e, w)
                   | (None, w) \<Rightarrow> (None, Print ''gofml: done\<newline>'' w))))"

subsection \<open>Second implementation: running the task\<close>

definition script_2 :: string where
  \<open>script_2 = ''\<newline>export GOFML={{.ImportPath}}\<newline>export GOPATH={{.GoFmlPath}}\<newline>export PATH="$GOPATH/bin:$PATH"\<newline>''\<close>

definition fields_2 :: "InitTask_2 \<Rightarrow> string \<rightharpoonup> string" where
  "fields_2 task =
     [''GoFmlRoot'' \<mapsto> GoFmlRoot_2 task, ''ImportPath'' \<mapsto> ImportPath_2 task,
      ''ProjectName'' \<mapsto> ProjectName_2 task, ''GoFmlPath'' \<mapsto> GoFmlPath_2 task,
      ''ProjectPath'' \<mapsto> ProjectPath_2 task]"

definition makeDir_2 :: "faults \<Rightarrow> InitTask_2 \<Rightarrow> world \<Rightarrow> error option \<times> world" where
  "makeDir_2 flt task w =
     (let (e, fs) = MkdirAll flt (disk w) (ProjectPath_2 task);
          w = w\<lparr>disk := fs\<rparr>;
          w = Print (''gofml: create project directory '' @ ProjectPath_2 task @ ''\<newline>'') w
      in (lift_errno e, w))"

definition writeEnvrc_2 :: "faults \<Rightarrow> InitTask_2 \<Rightarrow> world \<Rightarrow> error option \<times> world" where
  "writeEnvrc_2 flt task w =
     (case template_Parse False [] script_2 of
        None \<Rightarrow> (Some TemplateParseError, w)
      | Some scriptTemplate \<Rightarrow>
          (case template_Execute scriptTemplate (fields_2 task) of
             None \<Rightarrow> (Some TemplateExecError, w)
           | Some buf \<Rightarrow>
               let (_, fs) = Remove flt (disk w) (Join [GoFmlPath_2 task, ''.envrc'']);
                   (e, fs) = WriteFile flt fs (Join [GoFmlPath_2 task, ''.envrc'']) buf;
                   w = w\<lparr>disk := fs\<rparr>;
                   w = Print (''gofml: wrote activation script at ''
                          @ Join [GoFmlPath_2 task, ''.envrc''] @ ''\<newline>'') w
               in (lift_errno e, w)))"

definition printHints_2 :: "InitTask_2 \<Rightarrow> world \<Rightarrow> error option \<times> world" where
  "printHints_2 task w =
     (None, Print (''gofml: now do `cd '' @ ProjectPath_2 task
        @ ''` to goto your project and then `direnv allow` to activate the direnv file. \<newline>'') w)"

definition Run_2 :: "InitTask_2 \<Rightarrow> faults \<Rightarrow> world \<Rightarrow> error option \<times> world" where
  "Run_2 task flt w =
     (let w = Print ''gofml: initializing...\<newline>'' w;
          w = Print (''GoFmlRoot='' @ GoFmlRoot_2 task @ '' \<newline>'') w;
          w = Print (''ImportPath='' @ ImportPath_2 task @ '' \<newline>'') w;
          w = Print (''ProjectName='' @ ProjectName_2 task @ '' \<newline>'') w;
          w = Print (''GoFmlPath='' @ GoFmlPath_2 task @ '' \<newline>'') w;
          w = Print (''ProjectPath='' @ ProjectPath_2 task @ '' \<newline>'') w
      in case makeDir_2 flt task w of
           (Some e, w) \<Rightarrow> (Some e, w)
         | (None, w) \<Rightarrow>
             (case writeEnvrc_2 flt task w of
                (Some e, w) \<Rightarrow> (Some e, w)
              | (None, w) \<Rightarrow>
                  (case printHints_2 task w of
                     (Some e, w) \<Rightarrow> (Some e, w)
                   | (None, w) \<Rightarrow> (None, Print ''gofml: done\<newline>'' w))))"

section \<open>main.go\<close>

text \<open>
  A task is its \<open>Run\<close> method. A command is its descriptor: the name, the usage line,
  the short and the long help text, and the factory of its task.
\<close>

type_synonym Task = "faults \<Rightarrow> world \<Rightarrow> error option \<times> world"

record Command =
  Name :: string
  Usage :: string
  Short :: string
  Long :: string
  GetTask :: "string list \<Rightarrow> Task outcome"

definition map_outcome :: "('a \<Rightarrow> 'b) \<Rightarrow> 'a outcome \<Rightarrow> 'b outcome" where
  "map_outcome g r = (case r of Exits e \<Rightarrow> Exits e | Fails e \<Rightarrow> Fails e | Returns x \<Rightarrow> Returns (g x))"

text \<open>The descriptor of init in the first implementation.\<close>

definition Long_1 :: string where
  "Long_1 = concat
     [''\<newline>'',
      ''Init initializes a gofml and creates an initialization script that\<newline>'',
      ''activates it.  This script creates, if needed, a GOPATH directory\<newline>'',
      ''structure, symlinks the project into that structure at the specified\<newline>'',
      ''input path, and then alters the current session's GOPATH environment\<newline>'',
      ''variable to point to it.\<newline>'',
      ''\<newline>'',
      ''The gofml can be deactivated with 'deactivate'.\<newline>'',
      ''\<newline>'',
      ''Init supports the following options:\<newline>'',
      ''\<newline>'',
      ''    -n\<newline>'',
      ''         the name of the environment, defaulting to the name\<newline>'',
      ''         of the current working directory.\<newline>'',
      ''\<newline>'',
      ''    -g\<newline>'',
      ''         the GOPATH to create, defaulting to ~/.gofml/<name>\<newline>'',
      ''\<newline>'',
      ''    -p\<newline>'',
      ''         the project path, defaulting to the current working\<newline>'',
      ''         directory.\<newline>'']"

definition initCommand_1 :: Command where
  "initCommand_1 =
     \<lparr>Name = ''init'',
      Usage = ''init [-g][-p][-n] [import path]'',
      Short = ''initialize a gofml'',
      Long = Long_1,
      GetTask = (\<lambda>args. map_outcome Run_1 (NewInitTask_1 args))\<rparr>"

text \<open>
  The descriptor of init in the second implementation; its long help text holds the
  root that \<open>getGofmlRoot\<close> gave when the program started.
\<close>

definition Long_2 :: "environ \<Rightarrow> string" where
  "Long_2 env = concat
     [''\<newline>'',
      ''Init supports the following options:\<newline>'',
      ''\<newline>'',
      ''    -g\<newline>'',
      ''         the gofml root, where all projects are created defaulting to '',
      getGofmlRoot env, '' (uses env $GOFMLROOT if possible)\<newline>'',
      ''\<newline>'',
      ''    -n\<newline>'',
      ''         the name of the environment, defaulting to the basename of the import path.\<newline>'',
      ''\<newline>'']"

definition initCommand_2 :: "environ \<Rightarrow> Command" where
  "initCommand_2 env =
     \<lparr>Name = ''init'',
      Usage = ''init [-g][-n] [import path]'',
      Short = ''initialize a gofml env'',
      Long = Long_2 env,
      GetTask = (\<lambda>args. map_outcome Run_2 (NewInitTask_2 env args))\<rparr>"

text \<open>
  Modelled from the spec: the declaration of \<open>helpCommand\<close>, which \<open>init()\<close> registers, is
  not in the sources. The command line of the specification is \<open>tool help\<close> and the
  usage text of \<open>main.go\<close> says \<open>gofml help [command]\<close>, so its name is \<open>help\<close>; its
  texts and its factory are a parameter.
\<close>

definition helpCommand :: "Command \<Rightarrow> Command" where
  "helpCommand help = help\<lparr>Name := ''help''\<rparr>"

text \<open>A help command that gives no task, to run the dispatcher on an example.\<close>

definition no_help :: Command where
  "no_help =
     \<lparr>Name = ''help'', Usage = [], Short = [], Long = [],
      GetTask = (\<lambda>args. Fails (ErrorString []))\<rparr>"

text \<open>\<open>init()\<close> fills the registry from the command list.\<close>

definition commands :: "Command list \<Rightarrow> (string \<times> Command) list" where
  "commands commandList = foldl (\<lambda>m cmd. AList.update (Name cmd) cmd m) [] commandList"

text \<open>
  \<open>Main\<close>: the exit status of the process and the world it leaves. The command line has
  no flags of its own.
\<close>

definition CommandLine :: FlagSet where
  "CommandLine = \<lparr>formal = [], actual = []\<rparr>"

definition flag_failure :: "string \<Rightarrow> flag_error \<Rightarrow> stderr_item list" where
  "flag_failure set_name e =
     (case e of
        ErrHelp \<Rightarrow> [if set_name = [] then UsageText else FlagSetUsage set_name]
      | _ \<Rightarrow> [FlagErrorMessage e, if set_name = [] then UsageText else FlagSetUsage set_name])"

definition Main ::
  "(string \<times> Command) list \<Rightarrow> faults \<Rightarrow> string list \<Rightarrow> world \<Rightarrow> nat \<times> world" where
  "Main cmds flt argv w =
     (case Parse CommandLine argv of
        Inl e \<Rightarrow> (flag_exit_status e, w\<lparr>stderr := stderr w @ flag_failure [] e\<rparr>)
      | Inr (_, args) \<Rightarrow>
          if length args < 1 \<or> length args = 1 \<and> args ! 0 = ''help''
          then (1, w\<lparr>stderr := stderr w @ [UsageText]\<rparr>)
          else
            (case map_of cmds (args ! 0) of
               None \<Rightarrow> (1, w\<lparr>stderr := stderr w @ [UnrecognizedCommand (args ! 0), UsageText]\<rparr>)
             | Some cmd \<Rightarrow>
                 (case GetTask cmd (drop 1 args) of
                    Exits e \<Rightarrow>
                      (flag_exit_status e, w\<lparr>stderr := stderr w @ flag_failure (Name cmd) e\<rparr>)
                  | Fails e \<Rightarrow>
                      (1, w\<lparr>stderr := stderr w @
                            [FailedToParseCommand (Name cmd) (Usage cmd) (Short cmd) (Long cmd)]\<rparr>)
                  | Returns task \<Rightarrow>
                      (case task flt w of
                         (Some e, w') \<Rightarrow> (1, w'\<lparr>stderr := stderr w' @ [ErrorRunningCommand e]\<rparr>)
                       | (None, w') \<Rightarrow> (0, w')))))"

definition Main_1 ::
  "Command \<Rightarrow> faults \<Rightarrow> string list \<Rightarrow> world \<Rightarrow> nat \<times> world" where
  "Main_1 help = Main (commands [initCommand_1, helpCommand help])"

definition Main_2 ::
  "environ \<Rightarrow> Command \<Rightarrow> faults \<Rightarrow> string list \<Rightarrow> world \<Rightarrow> nat \<times> world" where
  "Main_2 env help = Main (commands [initCommand_2 env, helpCommand help])"

section \<open>What the specification talks about\<close>

text \<open>
  The final path component of a path, in the words of the specification: the last of
  its non-empty elements. A path without one is the empty path or a path of separators
  only; there the final component is a dot and the separator, as for the POSIX
  \<open>basename\<close>.
\<close>

definition final_component :: "string \<Rightarrow> string" where
  "final_component p =
     (let es = filter (\<lambda>e. e \<noteq> []) (split_sep p)
      in if es = [] then (if p = [] then ''.'' else ''/'') else last es)"

text \<open>The three export statements of the activation script, and a text made of lines.\<close>

definition three_exports :: "string \<Rightarrow> string \<Rightarrow> string list" where
  \<open>three_exports importPath workspace =
     [''export GOFML='' @ importPath,
      ''export GOPATH='' @ workspace,
      ''export PATH="$GOPATH/bin:$PATH"'']\<close>

definition lines_text :: "string list \<Rightarrow> string" where
  "lines_text ls = concat (map (\<lambda>l. l @ ''\<newline>'') ls)"

text \<open>
  The export lines of a text: those of its lines that begin with \<open>export\<close> and a space.
\<close>

fun split_lines :: "string \<Rightarrow> string list" where
  "split_lines [] = [[]]"
| "split_lines (c # cs) =
     (if c = CHR ''\<newline>'' then [] # split_lines cs
      else (case split_lines cs of [] \<Rightarrow> [[c]] | l # ls \<Rightarrow> (c # l) # ls))"

definition export_lines :: "string \<Rightarrow> string list" where
  "export_lines text = filter (prefix ''export '') (split_lines text)"

text \<open>
  What \<open>Run\<close> prints: the lines up to and including the one of \<open>makeDir\<close>, and
  the lines after the script is written.
\<close>

definition banner_1 :: "InitTask_1 \<Rightarrow> string list" where
  "banner_1 task =
     [''gofml: initializing...\<newline>'',
      ''ImportPath='' @ ImportPath_1 task @ '' \<newline>'',
      ''ProjectName='' @ ProjectName_1 task @ '' \<newline>'',
      ''ProjectPath='' @ ProjectPath_1 task @ '' \<newline>'',
      ''GoPath='' @ GoPath_1 task @ '' \<newline>'',
      ''gofml: create project directory '' @ ProjectPath_1 task @ ''\<newline>'']"

definition closing_1 :: "InitTask_1 \<Rightarrow> string list" where
  "closing_1 task =
     [''gofml: now do `cd '' @ ProjectPath_1 task
        @ ''` to goto your project and then `direnv allow` to activate the direnv file. \<newline>'',
      ''gofml: done\<newline>'']"

definition banner_2 :: "InitTask_2 \<Rightarrow> string list" where
  "banner_2 task =
     [''gofml: initializing...\<newline>'',
      ''GoFmlRoot='' @ GoFmlRoot_2 task @ '' \<newline>'',
      ''ImportPath='' @ ImportPath_2 task @ '' \<newline>'',
      ''ProjectName='' @ ProjectName_2 task @ '' \<newline>'',
      ''GoFmlPath='' @ GoFmlPath_2 task @ '' \<newline>'',
      ''ProjectPath='' @ ProjectPath_2 task @ '' \<newline>'',
      ''gofml: create project directory '' @ ProjectPath_2 task @ ''\<newline>'']"

definition closing_2 :: "InitTask_2 \<Rightarrow> string list" where
  "closing_2 task =
     [''gofml: now do `cd '' @ ProjectPath_2 task
        @ ''` to goto your project and then `direnv allow` to activate the direnv file. \<newline>'',
      ''gofml: done\<newline>'']"

text \<open>The text of the script: an empty line, then the three export statements.\<close>

definition envrc_text :: "string \<Rightarrow> string \<Rightarrow> string" where
  "envrc_text importPath workspace = ''\<newline>'' @ lines_text (three_exports importPath workspace)"

text \<open>
  Creating directories adds directory entries and changes nothing else; the working
  directory stays.
\<close>

definition grows :: "filesystem \<Rightarrow> filesystem \<Rightarrow> bool" where
  "grows fs fs' \<longleftrightarrow>
     cwd fs' = cwd fs \<and>
     (\<forall>k. node_at fs' k = node_at fs k \<or> (node_at fs k = None \<and> node_at fs' k = Some Directory))"

section \<open>Properties of the library functions\<close>

declare Parse.simps [simp del]

declare MkdirAll.simps [simp del]

subsection \<open>Paths\<close>

lemma Base_nonempty: "Base path \<noteq> []"
  by (simp add: Base_def Let_def)

lemma clean_element_nonempty:
  "\<forall>e \<in> set st. e \<noteq> [] \<Longrightarrow> \<forall>e \<in> set (clean_element rooted st x). e \<noteq> []"
  by (auto simp: clean_element_def split: list.splits)

lemma foldl_clean_nonempty:
  "\<forall>e \<in> set st. e \<noteq> [] \<Longrightarrow> \<forall>e \<in> set (foldl (clean_element rooted) st xs). e \<noteq> []"
proof (induction xs arbitrary: st)
  case Nil
  then show ?case by simp
next
  case (Cons x xs)
  show ?case
    using Cons.IH [OF clean_element_nonempty [OF Cons.prems]] by simp
qed

lemma join_sep_nonempty: "es \<noteq> [] \<Longrightarrow> \<forall>e \<in> set es. e \<noteq> [] \<Longrightarrow> join_sep es \<noteq> []"
  by (cases es rule: join_sep.cases) auto

lemma Clean_nonempty: "Clean path \<noteq> []"
proof -
  have key: "foldl (clean_element r) [] (split_sep path) \<noteq> [] \<Longrightarrow>
      join_sep (rev (foldl (clean_element r) [] (split_sep path))) \<noteq> []" for r
  proof -
    assume a: "foldl (clean_element r) [] (split_sep path) \<noteq> []"
    have "\<forall>e \<in> set (rev (foldl (clean_element r) [] (split_sep path))). e \<noteq> []"
      using foldl_clean_nonempty [of "[]" r "split_sep path"] by simp
    moreover have "rev (foldl (clean_element r) [] (split_sep path)) \<noteq> []"
      using a by simp
    ultimately show ?thesis
      by (rule join_sep_nonempty [rotated])
  qed
  show ?thesis
    using key [of True] key [of False] by (simp add: Clean_def Let_def)
qed

lemma Join2_nonempty: "b \<noteq> [] \<Longrightarrow> Join [a, b] \<noteq> []"
  by (simp add: Clean_nonempty)

lemma Join3_nonempty: "b \<noteq> [] \<Longrightarrow> Join [a, b, c] \<noteq> []"
  by (simp add: Clean_nonempty)

lemma Join_src: "Join [a, ''src'', p] = Join [a, ''src/'' @ p]"
  by (cases p) (simp_all add: Separator_def)

lemma split_sep_nonempty: "split_sep p \<noteq> []"
  by (induction p) (auto split: list.splits)

lemma split_sep_snoc:
  "split_sep (p @ [c]) =
     (if c = Separator then split_sep p @ [[]]
      else butlast (split_sep p) @ [last (split_sep p) @ [c]])"
proof (induction p)
  case Nil
  then show ?case by simp
next
  case (Cons a p)
  show ?case
  proof (cases "split_sep p")
    case Nil
    then show ?thesis using split_sep_nonempty [of p] by simp
  next
    case (Cons x xs)
    then show ?thesis
      using Cons.IH by (auto split: list.splits)
  qed
qed

lemma last_element_snoc:
  "last_element (p @ [c]) = (if c = Separator then [] else last_element p @ [c])"
  by (simp add: last_element_def)

lemma strip_trailing_snoc:
  "strip_trailing (p @ [c]) = (if c = Separator then strip_trailing p else p @ [c])"
  by (simp add: strip_trailing_def)

lemma last_split_sep: "last (split_sep p) = last_element p"
proof (induction p rule: rev_induct)
  case Nil
  then show ?case by (simp add: last_element_def)
next
  case (snoc c p)
  then show ?case
    by (simp add: split_sep_snoc last_element_snoc)
qed

lemma elements_last:
  "(filter (\<lambda>e. e \<noteq> []) (split_sep p) = [] \<longleftrightarrow> last_element (strip_trailing p) = []) \<and>
   (filter (\<lambda>e. e \<noteq> []) (split_sep p) \<noteq> [] \<longrightarrow>
      last (filter (\<lambda>e. e \<noteq> []) (split_sep p)) = last_element (strip_trailing p))"
proof (induction p rule: rev_induct)
  case Nil
  then show ?case by (simp add: last_element_def strip_trailing_def)
next
  case (snoc c p)
  show ?case
  proof (cases "c = Separator")
    case True
    then show ?thesis
      using snoc by (simp add: split_sep_snoc strip_trailing_snoc)
  next
    case False
    then show ?thesis
      by (simp add: split_sep_snoc strip_trailing_snoc last_element_snoc last_split_sep)
  qed
qed

lemma Base_final_component: "Base p = final_component p"
  using elements_last [of p]
  by (auto simp: Base_def final_component_def Let_def Separator_def)

subsection \<open>Flags\<close>


lemma formal_flag_Set: "formal (flag_Set f name v) = AList.update name v (formal f)"
  by (simp add: flag_Set_def)

lemma actual_flag_Set: "actual (flag_Set f name v) = actual f @ [name]"
  by (simp add: flag_Set_def)

text \<open>One step of the parser looks at the flag set only through the values of its flags.\<close>

lemma parseOne_formal:
  assumes "formal f = formal g"
  shows "(\<forall>e. parseOne f args = Inl e \<longrightarrow> parseOne g args = Inl e) \<and>
         (\<forall>seen f' r. parseOne f args = Inr (seen, f', r) \<longrightarrow>
            (\<exists>g'. parseOne g args = Inr (seen, g', r) \<and> formal g' = formal f'))"
  using assms
  by (auto simp: parseOne_def Let_def formal_flag_Set
      split: list.splits if_splits prod.splits option.splits)

lemma Parse_formal:
  "formal f = formal g \<Longrightarrow>
   (\<forall>e. Parse f args = Inl e \<longrightarrow> Parse g args = Inl e) \<and>
   (\<forall>f' r. Parse f args = Inr (f', r) \<longrightarrow>
      (\<exists>g'. Parse g args = Inr (g', r) \<and> formal g' = formal f'))"
proof (induction f args arbitrary: g rule: Parse.induct)
  case (1 f args)
  note one = parseOne_formal [OF \<open>formal f = formal g\<close>, of args]
  show ?case
  proof (cases "parseOne f args")
    case (Inl e)
    then show ?thesis
      using one by (simp add: Parse.simps [of f args] Parse.simps [of g args])
  next
    case (Inr x)
    obtain seen f' r where x: "x = (seen, f', r)"
      by (cases x) auto
    obtain g' where g': "parseOne g args = Inr (seen, g', r)" "formal g' = formal f'"
      using one Inr x by auto
    show ?thesis
    proof (cases seen)
      case True
      have "(\<forall>e. Parse f' r = Inl e \<longrightarrow> Parse g' r = Inl e) \<and>
            (\<forall>f'' r'. Parse f' r = Inr (f'', r') \<longrightarrow>
               (\<exists>g''. Parse g' r = Inr (g'', r') \<and> formal g'' = formal f''))"
        using "1.IH" [of x seen "(f', r)" f' r g'] Inr x True g'(2) by simp
      then show ?thesis
        using Inr x True g'(1)
        by (simp add: Parse.simps [of f args] Parse.simps [of g args])
    next
      case False
      then show ?thesis
        using Inr x g'
        by (simp add: Parse.simps [of f args] Parse.simps [of g args])
    qed
  qed
qed

text \<open>A flag that was not set keeps its value; the flags that were set only grow.\<close>

lemma parseOne_unset:
  "parseOne f args = Inr (seen, f', r) \<Longrightarrow>
   set (actual f) \<subseteq> set (actual f') \<and>
   (name \<notin> set (actual f') \<longrightarrow> map_of (formal f') name = map_of (formal f) name)"
  by (auto simp: parseOne_def Let_def formal_flag_Set actual_flag_Set update_conv'
      split: list.splits if_splits prod.splits option.splits)

lemma Parse_unset:
  "Parse f args = Inr (f', r) \<Longrightarrow>
   set (actual f) \<subseteq> set (actual f') \<and>
   (name \<notin> set (actual f') \<longrightarrow> map_of (formal f') name = map_of (formal f) name)"
proof (induction f args rule: Parse.induct)
  case (1 f args)
  show ?case
  proof (cases "parseOne f args")
    case (Inl e)
    then show ?thesis
      using "1.prems" by (simp add: Parse.simps [of f args])
  next
    case (Inr x)
    obtain seen f1 r1 where x: "x = (seen, f1, r1)"
      by (cases x) auto
    note one = parseOne_unset [of f args seen f1 r1 name]
    show ?thesis
    proof (cases seen)
      case True
      have "Parse f1 r1 = Inr (f', r)"
        using "1.prems" Inr x True by (simp add: Parse.simps [of f args])
      then have "set (actual f1) \<subseteq> set (actual f') \<and>
          (name \<notin> set (actual f') \<longrightarrow> map_of (formal f') name = map_of (formal f1) name)"
        using "1.IH" [of x seen "(f1, r1)" f1 r1] Inr x True by simp
      then show ?thesis
        using one Inr x by auto
    next
      case False
      then have "f' = f1"
        using "1.prems" Inr x by (simp add: Parse.simps [of f args])
      then show ?thesis
        using one Inr x by auto
    qed
  qed
qed

text \<open>The flag \<open>-n\<close> with an empty value, in both ways of writing it.\<close>

lemma Parse_n_empty:
  assumes "map_of (formal f) ''n'' = Some d"
  shows "Parse f (''-n'' # [] # args) = Parse (flag_Set f ''n'' []) args"
    and "Parse f (''-n='' # args) = Parse (flag_Set f ''n'' []) args"
  using assms
  by (simp_all add: Parse.simps [of f "_ # _"] parseOne_def split_value_def)

subsection \<open>Files and directories\<close>

lemma node_at_root: "node_at fs [] = Some Directory"
  by (simp add: node_at_def)

lemma node_at_set:
  "node_at (set_node fs k n) q =
     (if q = [] then Some Directory else if q = k then Some n else node_at fs q)"
  by (simp add: node_at_def set_node_def update_conv')

lemma node_at_del:
  "node_at (del_node fs k) q =
     (if q = [] then Some Directory else if q = k then None else node_at fs q)"
  by (simp add: node_at_def del_node_def delete_conv')

lemma cwd_set: "cwd (set_node fs k n) = cwd fs"
  by (simp add: set_node_def)

lemma cwd_del: "cwd (del_node fs k) = cwd fs"
  by (simp add: del_node_def)

text \<open>
  A walk that succeeds goes through directories only, so it succeeds in the same way
  wherever these are still directories.
\<close>

lemma walk_mono:
  assumes dirs: "\<And>q. node_at fs q = Some Directory \<Longrightarrow> node_at fs' q = Some Directory"
  shows "walk fs cur es = Inr k \<Longrightarrow> walk fs' cur es = Inr k"
proof (induction es arbitrary: cur)
  case Nil
  then show ?case by simp
next
  case (Cons e es)
  from Cons.prems have d: "node_at fs cur = Some Directory"
    by (auto split: option.splits node.splits)
  then have d': "node_at fs' cur = Some Directory"
    by (rule dirs)
  show ?case
    using Cons.prems Cons.IH d d' by (auto split: if_splits)
qed

lemma resolve_mono:
  assumes dirs: "\<And>q. node_at fs q = Some Directory \<Longrightarrow> node_at fs' q = Some Directory"
    and same: "cwd fs' = cwd fs"
    and res: "resolve fs path = Inr k"
  shows "resolve fs' path = Inr k"
proof -
  have "path \<noteq> []"
    using res by (auto simp: resolve_def)
  moreover have "walk fs (start fs path) (split_sep path) = Inr k"
    using res by (auto simp: resolve_def split: if_splits)
  then have "walk fs' (start fs path) (split_sep path) = Inr k"
    using walk_mono [of fs fs' "start fs path" "split_sep path" k] dirs by blast
  moreover have "start fs' path = start fs path"
    using same by (simp add: start_def)
  ultimately show ?thesis
    by (simp add: resolve_def)
qed


lemma grows_refl: "grows fs fs"
  by (simp add: grows_def)

lemma grows_trans: "grows a b \<Longrightarrow> grows b c \<Longrightarrow> grows a c"
  unfolding grows_def by metis

lemma Mkdir_grows: "Mkdir flt fs path = (e, fs') \<Longrightarrow> grows fs fs'"
  by (auto simp: Mkdir_def grows_def node_at_set node_at_root cwd_set
      split: option.splits sum.splits if_splits)

lemma MkdirAll_grows: "MkdirAll flt fs path = (e, fs') \<Longrightarrow> grows fs fs'"
proof (induction flt fs path arbitrary: e fs' rule: MkdirAll.induct)
  case (1 flt fs path)
  note eq = "1.prems" [unfolded MkdirAll.simps [of flt fs path]]
  show ?case
  proof (cases "stat fs path")
    case None
    define up where "up = (if length (upto_last_element path) > 1
                 then MkdirAll flt fs (butlast (upto_last_element path))
                 else (None, fs))"
    obtain e1 fs1 where up1: "up = (e1, fs1)"
      by (cases up) auto
    have eq': "(case up of
             (Some e, fs') \<Rightarrow> (Some e, fs')
           | (None, fs') \<Rightarrow>
               (case Mkdir flt fs' path of
                  (Some e, fs'') \<Rightarrow>
                    (case stat fs'' path of
                       Some Directory \<Rightarrow> (None, fs'')
                     | _ \<Rightarrow> (Some e, fs''))
                | (None, fs'') \<Rightarrow> (None, fs''))) = (e, fs')"
      using eq None by (simp add: up_def)
    have g1: "grows fs fs1"
    proof (cases "length (upto_last_element path) > 1")
      case True
      then show ?thesis
        using "1.IH" [OF None True, of e1 fs1] up1 by (simp add: up_def)
    next
      case False
      then show ?thesis
        using up1 by (simp add: up_def grows_refl)
    qed
    show ?thesis
    proof (cases e1)
      case (Some a)
      then show ?thesis
        using eq' up1 g1 by auto
    next
      case e1: None
      obtain e2 fs2 where mk: "Mkdir flt fs1 path = (e2, fs2)"
        by (cases "Mkdir flt fs1 path") auto
      have g2: "grows fs fs2"
        using g1 Mkdir_grows [OF mk] by (rule grows_trans)
      show ?thesis
        using eq' up1 e1 mk g2
        by (auto split: option.splits node.splits)
    qed
  next
    case (Some n)
    then show ?thesis
      using eq by (cases n) (auto simp: grows_refl)
  qed
qed


text \<open>What a removal and a write can do to the table.\<close>

lemma Remove_cases:
  assumes "Remove flt fs path = (e, fs')"
  shows "fs' = fs \<or>
     (\<exists>k. resolve fs path = Inr k \<and> k \<noteq> [] \<and> fs' = del_node fs k \<and>
        (node_at fs k = Some Directory \<or> (\<exists>c. node_at fs k = Some (File c))))"
  using assms
  by (auto simp: Remove_def node_at_root split: option.splits sum.splits node.splits if_splits)

lemma WriteFile_ok:
  assumes "WriteFile flt fs path data = (None, fs')"
  shows "\<exists>k. resolve fs path = Inr k \<and> k \<noteq> [] \<and> node_at fs k \<noteq> Some Directory \<and>
     fs' = set_node fs k (File data)"
  using assms
  by (auto simp: WriteFile_def node_at_root split: option.splits sum.splits node.splits prod.splits)

lemma WriteFile_keeps:
  assumes "WriteFile flt fs path data = (e, fs')"
  shows "node_at fs k = Some Directory \<Longrightarrow> node_at fs' k = Some Directory"
  using assms
  by (auto simp: WriteFile_def node_at_set node_at_root
      split: option.splits sum.splits node.splits prod.splits)

section \<open>Building the task\<close>

lemma NewInitTask_1_parsed:
  "NewInitTask_1 args =
     (case Parse flags_1 args of
        Inl e \<Rightarrow> Exits e
      | Inr (f, rest) \<Rightarrow>
          (case rest of
             [] \<Rightarrow> Fails (ErrorString ''no import path specified'')
           | p # _ \<Rightarrow>
               Returns
                 \<lparr>GoPath_1 =
                    (if flag_String f ''g'' = []
                     then Join [''/work/gofml'',
                            if flag_String f ''n'' = [] then Base p else flag_String f ''n'']
                     else flag_String f ''g''),
                  ImportPath_1 = p,
                  ProjectName_1 = (if flag_String f ''n'' = [] then Base p else flag_String f ''n''),
                  ProjectPath_1 =
                    (if flag_String f ''p'' = []
                     then Join [if flag_String f ''g'' = []
                                then Join [''/work/gofml'',
                                       if flag_String f ''n'' = [] then Base p
                                       else flag_String f ''n'']
                                else flag_String f ''g'',
                                ''src'', p]
                     else flag_String f ''p'')\<rparr>))"
  by (simp add: NewInitTask_1_def Let_def split: sum.splits list.splits prod.splits)

lemma NewInitTask_2_parsed:
  "NewInitTask_2 env args =
     (case Parse (flags_2 env) args of
        Inl e \<Rightarrow> Exits e
      | Inr (f, rest) \<Rightarrow>
          (case rest of
             [] \<Rightarrow> Fails (ErrorString ''no import path specified'')
           | p # _ \<Rightarrow>
               Returns
                 \<lparr>GoFmlRoot_2 = flag_String f ''g'',
                  ImportPath_2 = p,
                  ProjectName_2 = (if flag_String f ''n'' = [] then Base p else flag_String f ''n''),
                  GoFmlPath_2 =
                    Join [flag_String f ''g'',
                      if flag_String f ''n'' = [] then Base p else flag_String f ''n''],
                  ProjectPath_2 =
                    Join [Join [flag_String f ''g'',
                            if flag_String f ''n'' = [] then Base p else flag_String f ''n''],
                          ''src'', p]\<rparr>))"
  by (simp add: NewInitTask_2_def Let_def split: sum.splits list.splits prod.splits)


text \<open>
  Claim C9. When \<open>NewInitTask\<close> returns a task, its project name, its workspace path
  and its project path are not empty; and it returns an error exactly when the flags
  parse and leave no positional argument, that is, when the import path is missing.
  This holds for both implementations.
\<close>

theorem derived_fields_nonempty:
  "(\<forall>t. NewInitTask_1 args = Returns t \<longrightarrow>
        ProjectName_1 t \<noteq> [] \<and> GoPath_1 t \<noteq> [] \<and> ProjectPath_1 t \<noteq> []) \<and>
   ((\<exists>e. NewInitTask_1 args = Fails e) \<longleftrightarrow> (\<exists>f. Parse flags_1 args = Inr (f, []))) \<and>
   (\<forall>t. NewInitTask_2 env args = Returns t \<longrightarrow>
        ProjectName_2 t \<noteq> [] \<and> GoFmlPath_2 t \<noteq> [] \<and> ProjectPath_2 t \<noteq> []) \<and>
   ((\<exists>e. NewInitTask_2 env args = Fails e) \<longleftrightarrow> (\<exists>f. Parse (flags_2 env) args = Inr (f, [])))"
proof (intro conjI)
  show "\<forall>t. NewInitTask_1 args = Returns t \<longrightarrow>
        ProjectName_1 t \<noteq> [] \<and> GoPath_1 t \<noteq> [] \<and> ProjectPath_1 t \<noteq> []"
    by (auto simp: NewInitTask_1_parsed Base_nonempty Clean_nonempty
        split: sum.splits list.splits)
  show "(\<exists>e. NewInitTask_1 args = Fails e) \<longleftrightarrow> (\<exists>f. Parse flags_1 args = Inr (f, []))"
    by (auto simp: NewInitTask_1_parsed split: sum.splits list.splits)
  show "\<forall>t. NewInitTask_2 env args = Returns t \<longrightarrow>
        ProjectName_2 t \<noteq> [] \<and> GoFmlPath_2 t \<noteq> [] \<and> ProjectPath_2 t \<noteq> []"
    by (auto simp: NewInitTask_2_parsed Base_nonempty Clean_nonempty
        split: sum.splits list.splits)
  show "(\<exists>e. NewInitTask_2 env args = Fails e) \<longleftrightarrow> (\<exists>f. Parse (flags_2 env) args = Inr (f, []))"
    by (auto simp: NewInitTask_2_parsed split: sum.splits list.splits)
qed

theorem derived_fields_nonempty_witness:
  "NewInitTask_1 [''-n'', ''bar'', ''example.com/foo''] =
     Returns \<lparr>GoPath_1 = ''/work/gofml/bar'', ImportPath_1 = ''example.com/foo'',
              ProjectName_1 = ''bar'',
              ProjectPath_1 = ''/work/gofml/bar/src/example.com/foo''\<rparr> \<and>
   NewInitTask_2 Map.empty [''example.com/foo''] =
     Returns \<lparr>GoFmlRoot_2 = ''~/gofml'', ImportPath_2 = ''example.com/foo'',
              ProjectName_2 = ''foo'', GoFmlPath_2 = ''~/gofml/foo'',
              ProjectPath_2 = ''~/gofml/foo/src/example.com/foo''\<rparr> \<and>
   ProjectName_2 \<lparr>GoFmlRoot_2 = ''~/gofml'', ImportPath_2 = ''example.com/foo'',
              ProjectName_2 = ''foo'', GoFmlPath_2 = ''~/gofml/foo'',
              ProjectPath_2 = ''~/gofml/foo/src/example.com/foo''\<rparr> \<noteq> [] \<and>
   NewInitTask_1 [''-n'', ''bar''] = Fails (ErrorString ''no import path specified'') \<and>
   (\<exists>f. Parse flags_1 [''-n'', ''bar''] = Inr (f, [])) \<and>
   NewInitTask_2 Map.empty [] = Fails (ErrorString ''no import path specified'') \<and>
   (\<exists>f. Parse (flags_2 Map.empty) [] = Inr (f, []))"
proof -
  have r1: "NewInitTask_1 [''-n'', ''bar'', ''example.com/foo''] =
     Returns \<lparr>GoPath_1 = ''/work/gofml/bar'', ImportPath_1 = ''example.com/foo'',
              ProjectName_1 = ''bar'',
              ProjectPath_1 = ''/work/gofml/bar/src/example.com/foo''\<rparr>"
    by code_simp
  have r2: "NewInitTask_2 Map.empty [''example.com/foo''] =
     Returns \<lparr>GoFmlRoot_2 = ''~/gofml'', ImportPath_2 = ''example.com/foo'',
              ProjectName_2 = ''foo'', GoFmlPath_2 = ''~/gofml/foo'',
              ProjectPath_2 = ''~/gofml/foo/src/example.com/foo''\<rparr>"
    by code_simp
  have f1: "NewInitTask_1 [''-n'', ''bar''] = Fails (ErrorString ''no import path specified'')"
    by code_simp
  have f2: "NewInitTask_2 Map.empty [] = Fails (ErrorString ''no import path specified'')"
    by code_simp
  show ?thesis
    using derived_fields_nonempty [of "[''-n'', ''bar'', ''example.com/foo'']" Map.empty]
      derived_fields_nonempty [of "[''example.com/foo'']" Map.empty]
      derived_fields_nonempty [of "[''-n'', ''bar'']" Map.empty]
      derived_fields_nonempty [of "[]" Map.empty] r1 r2 f1 f2
    by blast
qed

lemma flag_String_formal: "formal f = formal g \<Longrightarrow> flag_String f = flag_String g"
  by (simp add: flag_String_def fun_eq_iff)

lemma NewInitTask_1_same:
  assumes p: "Parse flags_1 args1 = Parse f args2" and fm: "formal f = formal flags_1"
  shows "NewInitTask_1 args1 = NewInitTask_1 args2"
proof (cases "Parse f args2")
  case (Inl e)
  then have "Parse flags_1 args2 = Inl e"
    using Parse_formal [OF fm, of args2] by simp
  then show ?thesis
    using Inl p by (simp add: NewInitTask_1_def)
next
  case (Inr x)
  obtain f' r where x: "x = (f', r)"
    by (cases x) auto
  obtain g' where g': "Parse flags_1 args2 = Inr (g', r)" "formal g' = formal f'"
    using Parse_formal [OF fm, of args2] Inr x by auto
  show ?thesis
    using Inr x p g'(1) flag_String_formal [OF g'(2)] by (simp add: NewInitTask_1_def)
qed

lemma NewInitTask_2_same:
  assumes p: "Parse (flags_2 env) args1 = Parse f args2" and fm: "formal f = formal (flags_2 env)"
  shows "NewInitTask_2 env args1 = NewInitTask_2 env args2"
proof (cases "Parse f args2")
  case (Inl e)
  then have "Parse (flags_2 env) args2 = Inl e"
    using Parse_formal [OF fm, of args2] by simp
  then show ?thesis
    using Inl p by (simp add: NewInitTask_2_def)
next
  case (Inr x)
  obtain f' r where x: "x = (f', r)"
    by (cases x) auto
  obtain g' where g': "Parse (flags_2 env) args2 = Inr (g', r)" "formal g' = formal f'"
    using Parse_formal [OF fm, of args2] Inr x by auto
  show ?thesis
    using Inr x p g'(1) flag_String_formal [OF g'(2)] by (simp add: NewInitTask_2_def)
qed

text \<open>
  Claim C10. The flag \<open>-n\<close> with an empty value, written \<open>-n ''\<close> or \<open>-n=\<close>, gives
  the result the same arguments give without it, in both implementations; wherever it
  stands among the flags, when the value of \<open>-n\<close> is empty after parsing the project
  name is taken from the import path, as when \<open>-n\<close> is not given; and no task that is
  returned has an empty project name.
\<close>

theorem empty_name_is_unset:
  "NewInitTask_1 (''-n'' # [] # args) = NewInitTask_1 args \<and>
   NewInitTask_1 (''-n='' # args) = NewInitTask_1 args \<and>
   NewInitTask_2 env (''-n'' # [] # args) = NewInitTask_2 env args \<and>
   NewInitTask_2 env (''-n='' # args) = NewInitTask_2 env args \<and>
   (\<forall>f p rest. Parse flags_1 args = Inr (f, p # rest) \<longrightarrow> flag_String f ''n'' = [] \<longrightarrow>
      (\<exists>t. NewInitTask_1 args = Returns t \<and> ProjectName_1 t = Base p)) \<and>
   (\<forall>f p rest. Parse (flags_2 env) args = Inr (f, p # rest) \<longrightarrow> flag_String f ''n'' = [] \<longrightarrow>
      (\<exists>t. NewInitTask_2 env args = Returns t \<and> ProjectName_2 t = Base p)) \<and>
   (\<forall>t. NewInitTask_1 args = Returns t \<longrightarrow> ProjectName_1 t \<noteq> []) \<and>
   (\<forall>t. NewInitTask_2 env args = Returns t \<longrightarrow> ProjectName_2 t \<noteq> [])"
proof -
  have n1: "map_of (formal flags_1) ''n'' = Some []"
    by (simp add: flags_1_def)
  have f1: "formal (flag_Set flags_1 ''n'' []) = formal flags_1"
    by (simp add: flags_1_def formal_flag_Set)
  have n2: "map_of (formal (flags_2 env)) ''n'' = Some []"
    by (simp add: flags_2_def)
  have f2: "formal (flag_Set (flags_2 env) ''n'' []) = formal (flags_2 env)"
    by (simp add: flags_2_def formal_flag_Set)
  have "NewInitTask_1 (''-n'' # [] # args) = NewInitTask_1 args"
    by (rule NewInitTask_1_same [OF Parse_n_empty(1) [OF n1] f1])
  moreover have "NewInitTask_1 (''-n='' # args) = NewInitTask_1 args"
    by (rule NewInitTask_1_same [OF Parse_n_empty(2) [OF n1] f1])
  moreover have "NewInitTask_2 env (''-n'' # [] # args) = NewInitTask_2 env args"
    by (rule NewInitTask_2_same [OF Parse_n_empty(1) [OF n2] f2])
  moreover have "NewInitTask_2 env (''-n='' # args) = NewInitTask_2 env args"
    by (rule NewInitTask_2_same [OF Parse_n_empty(2) [OF n2] f2])
  moreover have "\<forall>f p rest. Parse flags_1 args = Inr (f, p # rest) \<longrightarrow>
      flag_String f ''n'' = [] \<longrightarrow>
      (\<exists>t. NewInitTask_1 args = Returns t \<and> ProjectName_1 t = Base p)"
    by (simp add: NewInitTask_1_parsed)
  moreover have "\<forall>f p rest. Parse (flags_2 env) args = Inr (f, p # rest) \<longrightarrow>
      flag_String f ''n'' = [] \<longrightarrow>
      (\<exists>t. NewInitTask_2 env args = Returns t \<and> ProjectName_2 t = Base p)"
    by (simp add: NewInitTask_2_parsed)
  moreover have "\<forall>t. NewInitTask_1 args = Returns t \<longrightarrow> ProjectName_1 t \<noteq> []"
    by (auto simp: NewInitTask_1_parsed Base_nonempty split: sum.splits list.splits)
  moreover have "\<forall>t. NewInitTask_2 env args = Returns t \<longrightarrow> ProjectName_2 t \<noteq> []"
    by (auto simp: NewInitTask_2_parsed Base_nonempty split: sum.splits list.splits)
  ultimately show ?thesis
    by blast
qed

theorem empty_name_is_unset_witness:
  "Parse flags_1 [''-n'', ''bar'', ''-g'', ''/x'', ''-n'', [], ''example.com/foo''] =
     Inr (\<lparr>formal = [(''g'', ''/x''), (''n'', []), (''p'', [])], actual = [''n'', ''g'', ''n'']\<rparr>,
          [''example.com/foo'']) \<and>
   (\<exists>t. NewInitTask_1 [''-n'', ''bar'', ''-g'', ''/x'', ''-n'', [], ''example.com/foo''] = Returns t \<and>
        ProjectName_1 t = ''foo'') \<and>
   NewInitTask_1 [''-n'', [], ''-g'', ''/x'', ''example.com/foo''] =
     Returns \<lparr>GoPath_1 = ''/x'', ImportPath_1 = ''example.com/foo'', ProjectName_1 = ''foo'',
              ProjectPath_1 = ''/x/src/example.com/foo''\<rparr> \<and>
   NewInitTask_2 Map.empty [''-n='', ''example.com/foo''] =
     Returns \<lparr>GoFmlRoot_2 = ''~/gofml'', ImportPath_2 = ''example.com/foo'',
              ProjectName_2 = ''foo'', GoFmlPath_2 = ''~/gofml/foo'',
              ProjectPath_2 = ''~/gofml/foo/src/example.com/foo''\<rparr> \<and>
   ProjectName_2 \<lparr>GoFmlRoot_2 = ''~/gofml'', ImportPath_2 = ''example.com/foo'',
              ProjectName_2 = ''foo'', GoFmlPath_2 = ''~/gofml/foo'',
              ProjectPath_2 = ''~/gofml/foo/src/example.com/foo''\<rparr> \<noteq> []"
proof -
  have r1: "NewInitTask_1 [''-g'', ''/x'', ''example.com/foo''] =
     Returns \<lparr>GoPath_1 = ''/x'', ImportPath_1 = ''example.com/foo'', ProjectName_1 = ''foo'',
              ProjectPath_1 = ''/x/src/example.com/foo''\<rparr>"
    by code_simp
  have r2: "NewInitTask_2 Map.empty [''example.com/foo''] =
     Returns \<lparr>GoFmlRoot_2 = ''~/gofml'', ImportPath_2 = ''example.com/foo'',
              ProjectName_2 = ''foo'', GoFmlPath_2 = ''~/gofml/foo'',
              ProjectPath_2 = ''~/gofml/foo/src/example.com/foo''\<rparr>"
    by code_simp
  have p3: "Parse flags_1 [''-n'', ''bar'', ''-g'', ''/x'', ''-n'', [], ''example.com/foo''] =
     Inr (\<lparr>formal = [(''g'', ''/x''), (''n'', []), (''p'', [])], actual = [''n'', ''g'', ''n'']\<rparr>,
          [''example.com/foo''])"
    by code_simp
  have v3: "flag_String \<lparr>formal = [(''g'', ''/x''), (''n'', []), (''p'', [])],
      actual = [''n'', ''g'', ''n'']\<rparr> ''n'' = []"
    by (simp add: flag_String_def)
  have b3: "Base ''example.com/foo'' = ''foo''"
    by code_simp
  have "\<exists>t. NewInitTask_1 [''-n'', ''bar'', ''-g'', ''/x'', ''-n'', [], ''example.com/foo''] = Returns t \<and>
        ProjectName_1 t = ''foo''"
    using empty_name_is_unset
      [of "[''-n'', ''bar'', ''-g'', ''/x'', ''-n'', [], ''example.com/foo'']" Map.empty] p3 v3 b3
    by metis
  then show ?thesis
    using empty_name_is_unset [of "[''-g'', ''/x'', ''example.com/foo'']" Map.empty]
      empty_name_is_unset [of "[''example.com/foo'']" Map.empty] r1 r2 p3
    by simp
qed

text \<open>
  Claim C3. When the flags parse, leave the import path \<open>p\<close> as the first positional
  argument and \<open>-n\<close> was not set, \<open>NewInitTask\<close> returns a task for \<open>p\<close> whose project
  name is the final path component of \<open>p\<close>, in both implementations.
\<close>

theorem project_name_is_final_component:
  "(\<forall>f p rest. Parse flags_1 args = Inr (f, p # rest) \<longrightarrow> ''n'' \<notin> set (actual f) \<longrightarrow>
      (\<exists>t. NewInitTask_1 args = Returns t \<and> ImportPath_1 t = p \<and>
           ProjectName_1 t = final_component p)) \<and>
   (\<forall>f p rest. Parse (flags_2 env) args = Inr (f, p # rest) \<longrightarrow> ''n'' \<notin> set (actual f) \<longrightarrow>
      (\<exists>t. NewInitTask_2 env args = Returns t \<and> ImportPath_2 t = p \<and>
           ProjectName_2 t = final_component p))"
proof (intro conjI allI impI)
  fix f p rest
  assume p: "Parse flags_1 args = Inr (f, p # rest)" and n: "''n'' \<notin> set (actual f)"
  have "map_of (formal f) ''n'' = map_of (formal flags_1) ''n''"
    using Parse_unset [OF p, of "''n''"] n by simp
  then have "flag_String f ''n'' = []"
    by (simp add: flag_String_def flags_1_def)
  then show "\<exists>t. NewInitTask_1 args = Returns t \<and> ImportPath_1 t = p \<and>
           ProjectName_1 t = final_component p"
    using p by (simp add: NewInitTask_1_parsed Base_final_component)
next
  fix f p rest
  assume p: "Parse (flags_2 env) args = Inr (f, p # rest)" and n: "''n'' \<notin> set (actual f)"
  have "map_of (formal f) ''n'' = map_of (formal (flags_2 env)) ''n''"
    using Parse_unset [OF p, of "''n''"] n by simp
  then have "flag_String f ''n'' = []"
    by (simp add: flag_String_def flags_2_def)
  then show "\<exists>t. NewInitTask_2 env args = Returns t \<and> ImportPath_2 t = p \<and>
           ProjectName_2 t = final_component p"
    using p by (simp add: NewInitTask_2_parsed Base_final_component)
qed

theorem project_name_is_final_component_witness:
  "Parse flags_1 [''-g'', ''/x'', ''example.com/foo/''] =
     Inr (\<lparr>formal = [(''g'', ''/x''), (''n'', []), (''p'', [])], actual = [''g'']\<rparr>,
          [''example.com/foo/'']) \<and>
   ''n'' \<notin> set [''g''] \<and>
   (\<exists>t. NewInitTask_1 [''-g'', ''/x'', ''example.com/foo/''] = Returns t \<and>
        ImportPath_1 t = ''example.com/foo/'' \<and> ProjectName_1 t = ''foo'') \<and>
   Parse (flags_2 Map.empty) [''github.com/rubensayshi/gofml''] =
     Inr (\<lparr>formal = [(''g'', ''~/gofml''), (''n'', [])], actual = []\<rparr>,
          [''github.com/rubensayshi/gofml'']) \<and>
   (\<exists>t. NewInitTask_2 Map.empty [''github.com/rubensayshi/gofml''] = Returns t \<and>
        ImportPath_2 t = ''github.com/rubensayshi/gofml'' \<and> ProjectName_2 t = ''gofml'')"
proof -
  have p1: "Parse flags_1 [''-g'', ''/x'', ''example.com/foo/''] =
     Inr (\<lparr>formal = [(''g'', ''/x''), (''n'', []), (''p'', [])], actual = [''g'']\<rparr>,
          [''example.com/foo/''])"
    by code_simp
  have p2: "Parse (flags_2 Map.empty) [''github.com/rubensayshi/gofml''] =
     Inr (\<lparr>formal = [(''g'', ''~/gofml''), (''n'', [])], actual = []\<rparr>,
          [''github.com/rubensayshi/gofml''])"
    by code_simp
  have c1: "final_component ''example.com/foo/'' = ''foo''"
    by code_simp
  have c2: "final_component ''github.com/rubensayshi/gofml'' = ''gofml''"
    by code_simp
  show ?thesis
    using project_name_is_final_component [of "[''-g'', ''/x'', ''example.com/foo/'']" Map.empty]
      project_name_is_final_component [of "[''github.com/rubensayshi/gofml'']" Map.empty]
      p1 p2 c1 c2
    by simp
qed

text \<open>
  Claim C1, as amended. In the second implementation, whatever the \<open>-g\<close> and \<open>-n\<close>
  overrides, the root of the task is the value of \<open>-g\<close>, the workspace path is the root
  joined with the project name, and the project path is the workspace path joined with
  \<open>src/\<close> and the import path. In the first implementation, \<open>-g\<close> is the workspace
  path itself and \<open>-p\<close> the project path itself: the workspace path is \<open>/work/gofml\<close>
  joined with the project name when \<open>-g\<close> is empty, and the project path is the
  workspace path joined with \<open>src/\<close> and the import path when \<open>-p\<close> is empty.
\<close>

theorem workspace_and_project_path:
  "(\<forall>f rest t. Parse (flags_2 env) args = Inr (f, rest) \<longrightarrow> NewInitTask_2 env args = Returns t \<longrightarrow>
      GoFmlRoot_2 t = flag_String f ''g'' \<and>
      GoFmlPath_2 t = Join [GoFmlRoot_2 t, ProjectName_2 t] \<and>
      ProjectPath_2 t = Join [GoFmlPath_2 t, ''src/'' @ ImportPath_2 t]) \<and>
   (\<forall>f rest t. Parse flags_1 args = Inr (f, rest) \<longrightarrow> NewInitTask_1 args = Returns t \<longrightarrow>
      GoPath_1 t =
        (if flag_String f ''g'' = [] then Join [''/work/gofml'', ProjectName_1 t]
         else flag_String f ''g'') \<and>
      ProjectPath_1 t =
        (if flag_String f ''p'' = [] then Join [GoPath_1 t, ''src/'' @ ImportPath_1 t]
         else flag_String f ''p''))"
proof (intro conjI allI impI)
  fix f rest t
  assume p: "Parse (flags_2 env) args = Inr (f, rest)" and r: "NewInitTask_2 env args = Returns t"
  obtain a rest' where rest: "rest = a # rest'"
    using p r by (cases rest) (simp_all add: NewInitTask_2_parsed)
  have t: "t = \<lparr>GoFmlRoot_2 = flag_String f ''g'', ImportPath_2 = a,
      ProjectName_2 = (if flag_String f ''n'' = [] then Base a else flag_String f ''n''),
      GoFmlPath_2 = Join [flag_String f ''g'',
         if flag_String f ''n'' = [] then Base a else flag_String f ''n''],
      ProjectPath_2 = Join [Join [flag_String f ''g'',
          if flag_String f ''n'' = [] then Base a else flag_String f ''n''], ''src'', a]\<rparr>"
    using p r rest by (simp add: NewInitTask_2_parsed)
  show "GoFmlRoot_2 t = flag_String f ''g''"
    by (simp add: t)
  show "GoFmlPath_2 t = Join [GoFmlRoot_2 t, ProjectName_2 t]"
    by (simp add: t)
  show "ProjectPath_2 t = Join [GoFmlPath_2 t, ''src/'' @ ImportPath_2 t]"
    unfolding Join_src [symmetric] by (simp add: t)
next
  fix f rest t
  assume p: "Parse flags_1 args = Inr (f, rest)" and r: "NewInitTask_1 args = Returns t"
  obtain a rest' where rest: "rest = a # rest'"
    using p r by (cases rest) (simp_all add: NewInitTask_1_parsed)
  have t: "t = \<lparr>GoPath_1 =
        (if flag_String f ''g'' = []
         then Join [''/work/gofml'',
                if flag_String f ''n'' = [] then Base a else flag_String f ''n'']
         else flag_String f ''g''),
      ImportPath_1 = a,
      ProjectName_1 = (if flag_String f ''n'' = [] then Base a else flag_String f ''n''),
      ProjectPath_1 =
        (if flag_String f ''p'' = []
         then Join [if flag_String f ''g'' = []
                    then Join [''/work/gofml'',
                           if flag_String f ''n'' = [] then Base a else flag_String f ''n'']
                    else flag_String f ''g'', ''src'', a]
         else flag_String f ''p'')\<rparr>"
    using p r rest by (simp add: NewInitTask_1_parsed)
  show "GoPath_1 t =
        (if flag_String f ''g'' = [] then Join [''/work/gofml'', ProjectName_1 t]
         else flag_String f ''g'')"
    by (simp add: t)
  show "ProjectPath_1 t =
        (if flag_String f ''p'' = [] then Join [GoPath_1 t, ''src/'' @ ImportPath_1 t]
         else flag_String f ''p'')"
    unfolding Join_src [symmetric] by (simp add: t)
qed

theorem workspace_and_project_path_witness:
  "Parse (flags_2 Map.empty) [''-g'', ''/r'', ''-n'', ''bar'', ''example.com/foo''] =
     Inr (\<lparr>formal = [(''g'', ''/r''), (''n'', ''bar'')], actual = [''g'', ''n'']\<rparr>,
          [''example.com/foo'']) \<and>
   NewInitTask_2 Map.empty [''-g'', ''/r'', ''-n'', ''bar'', ''example.com/foo''] =
     Returns \<lparr>GoFmlRoot_2 = ''/r'', ImportPath_2 = ''example.com/foo'', ProjectName_2 = ''bar'',
              GoFmlPath_2 = ''/r/bar'', ProjectPath_2 = ''/r/bar/src/example.com/foo''\<rparr> \<and>
   ''/r/bar'' = Join [''/r'', ''bar''] \<and>
   ''/r/bar/src/example.com/foo'' = Join [''/r/bar'', ''src/example.com/foo''] \<and>
   Parse flags_1 [''-n'', ''bar'', ''example.com/foo''] =
     Inr (\<lparr>formal = [(''g'', []), (''n'', ''bar''), (''p'', [])], actual = [''n'']\<rparr>,
          [''example.com/foo'']) \<and>
   NewInitTask_1 [''-n'', ''bar'', ''example.com/foo''] =
     Returns \<lparr>GoPath_1 = ''/work/gofml/bar'', ImportPath_1 = ''example.com/foo'',
              ProjectName_1 = ''bar'',
              ProjectPath_1 = ''/work/gofml/bar/src/example.com/foo''\<rparr> \<and>
   ''/work/gofml/bar'' = Join [''/work/gofml'', ''bar''] \<and>
   ''/work/gofml/bar/src/example.com/foo'' = Join [''/work/gofml/bar'', ''src/example.com/foo'']"
proof -
  have p2: "Parse (flags_2 Map.empty) [''-g'', ''/r'', ''-n'', ''bar'', ''example.com/foo''] =
     Inr (\<lparr>formal = [(''g'', ''/r''), (''n'', ''bar'')], actual = [''g'', ''n'']\<rparr>,
          [''example.com/foo''])"
    by code_simp
  have r2: "NewInitTask_2 Map.empty [''-g'', ''/r'', ''-n'', ''bar'', ''example.com/foo''] =
     Returns \<lparr>GoFmlRoot_2 = ''/r'', ImportPath_2 = ''example.com/foo'', ProjectName_2 = ''bar'',
              GoFmlPath_2 = ''/r/bar'', ProjectPath_2 = ''/r/bar/src/example.com/foo''\<rparr>"
    by code_simp
  have p1: "Parse flags_1 [''-n'', ''bar'', ''example.com/foo''] =
     Inr (\<lparr>formal = [(''g'', []), (''n'', ''bar''), (''p'', [])], actual = [''n'']\<rparr>,
          [''example.com/foo''])"
    by code_simp
  have r1: "NewInitTask_1 [''-n'', ''bar'', ''example.com/foo''] =
     Returns \<lparr>GoPath_1 = ''/work/gofml/bar'', ImportPath_1 = ''example.com/foo'',
              ProjectName_1 = ''bar'',
              ProjectPath_1 = ''/work/gofml/bar/src/example.com/foo''\<rparr>"
    by code_simp
  have g1: "flag_String \<lparr>formal = [(''g'', []), (''n'', ''bar''), (''p'', [])], actual = [''n'']\<rparr> ''g'' = []"
    and g2: "flag_String \<lparr>formal = [(''g'', []), (''n'', ''bar''), (''p'', [])], actual = [''n'']\<rparr> ''p'' = []"
    by (simp_all add: flag_String_def)
  show ?thesis
    using workspace_and_project_path
      [of Map.empty "[''-g'', ''/r'', ''-n'', ''bar'', ''example.com/foo'']"] p2 r2
      workspace_and_project_path [of Map.empty "[''-n'', ''bar'', ''example.com/foo'']"] p1 r1 g1 g2
    by (simp del: Join.simps)
qed

text \<open>
  The claim as stated fails in the first implementation: with \<open>-g /x\<close> the workspace
  path is \<open>/x\<close>, which is neither \<open>/x\<close> nor \<open>/work/gofml\<close> joined with the project name
  \<open>foo\<close>; with \<open>-p /y\<close> the project path is \<open>/y\<close>, not the workspace path joined with
  \<open>src/example.com/foo\<close>.
\<close>

theorem workspace_and_project_path_counterexample:
  "NewInitTask_1 [''-g'', ''/x'', ''example.com/foo''] =
     Returns \<lparr>GoPath_1 = ''/x'', ImportPath_1 = ''example.com/foo'', ProjectName_1 = ''foo'',
              ProjectPath_1 = ''/x/src/example.com/foo''\<rparr> \<and>
   ''/x'' \<noteq> Join [''/x'', ''foo''] \<and>
   ''/x'' \<noteq> Join [''/work/gofml'', ''foo''] \<and>
   NewInitTask_1 [''-p'', ''/y'', ''example.com/foo''] =
     Returns \<lparr>GoPath_1 = ''/work/gofml/foo'', ImportPath_1 = ''example.com/foo'',
              ProjectName_1 = ''foo'', ProjectPath_1 = ''/y''\<rparr> \<and>
   ''/y'' \<noteq> Join [''/work/gofml/foo'', ''src/example.com/foo'']"
  by code_simp

text \<open>
  Claim C2, as amended. In the second implementation, when \<open>-g\<close> was not set, the root
  of the task is the value of the environment variable \<open>GOFMLROOT\<close> when that is set
  and not empty, and \<open>~/gofml\<close> when it is unset or empty. The first implementation reads
  no environment variable: when \<open>-g\<close> was not set, the workspace path is
  \<open>/work/gofml\<close> joined with the project name.
\<close>

theorem default_root:
  "(\<forall>f rest t. Parse (flags_2 env) args = Inr (f, rest) \<longrightarrow> ''g'' \<notin> set (actual f) \<longrightarrow>
      NewInitTask_2 env args = Returns t \<longrightarrow>
      GoFmlRoot_2 t =
        (case env ''GOFMLROOT'' of
           None \<Rightarrow> ''~/gofml''
         | Some v \<Rightarrow> if v = [] then ''~/gofml'' else v)) \<and>
   (\<forall>f rest t. Parse flags_1 args = Inr (f, rest) \<longrightarrow> ''g'' \<notin> set (actual f) \<longrightarrow>
      NewInitTask_1 args = Returns t \<longrightarrow>
      GoPath_1 t = Join [''/work/gofml'', ProjectName_1 t])"
proof (intro conjI allI impI)
  fix f rest t
  assume p: "Parse (flags_2 env) args = Inr (f, rest)" and g: "''g'' \<notin> set (actual f)"
    and r: "NewInitTask_2 env args = Returns t"
  have "map_of (formal f) ''g'' = map_of (formal (flags_2 env)) ''g''"
    using Parse_unset [OF p, of "''g''"] g by simp
  then have "flag_String f ''g'' = getGofmlRoot env"
    by (simp add: flag_String_def flags_2_def)
  moreover have "GoFmlRoot_2 t = flag_String f ''g''"
    using p r by (auto simp: NewInitTask_2_parsed split: list.splits)
  ultimately show "GoFmlRoot_2 t =
        (case env ''GOFMLROOT'' of
           None \<Rightarrow> ''~/gofml''
         | Some v \<Rightarrow> if v = [] then ''~/gofml'' else v)"
    by (simp add: getGofmlRoot_def Getenv_def Let_def split: option.splits)
next
  fix f rest t
  assume p: "Parse flags_1 args = Inr (f, rest)" and g: "''g'' \<notin> set (actual f)"
    and r: "NewInitTask_1 args = Returns t"
  have "map_of (formal f) ''g'' = map_of (formal flags_1) ''g''"
    using Parse_unset [OF p, of "''g''"] g by simp
  then have "flag_String f ''g'' = []"
    by (simp add: flag_String_def flags_1_def)
  then show "GoPath_1 t = Join [''/work/gofml'', ProjectName_1 t]"
    using p r by (auto simp: NewInitTask_1_parsed split: list.splits)
qed

theorem default_root_witness:
  "Parse (flags_2 [''GOFMLROOT'' \<mapsto> ''/srv/fml'']) [''-n'', ''bar'', ''example.com/foo''] =
     Inr (\<lparr>formal = [(''g'', ''/srv/fml''), (''n'', ''bar'')], actual = [''n'']\<rparr>,
          [''example.com/foo'']) \<and>
   ''g'' \<notin> set [''n''] \<and>
   NewInitTask_2 [''GOFMLROOT'' \<mapsto> ''/srv/fml''] [''-n'', ''bar'', ''example.com/foo''] =
     Returns \<lparr>GoFmlRoot_2 = ''/srv/fml'', ImportPath_2 = ''example.com/foo'',
              ProjectName_2 = ''bar'', GoFmlPath_2 = ''/srv/fml/bar'',
              ProjectPath_2 = ''/srv/fml/bar/src/example.com/foo''\<rparr> \<and>
   Parse flags_1 [''example.com/foo''] =
     Inr (\<lparr>formal = [(''g'', []), (''n'', []), (''p'', [])], actual = []\<rparr>,
          [''example.com/foo'']) \<and>
   NewInitTask_1 [''example.com/foo''] =
     Returns \<lparr>GoPath_1 = ''/work/gofml/foo'', ImportPath_1 = ''example.com/foo'',
              ProjectName_1 = ''foo'',
              ProjectPath_1 = ''/work/gofml/foo/src/example.com/foo''\<rparr> \<and>
   ''/work/gofml/foo'' = Join [''/work/gofml'', ''foo'']"
proof -
  have p2: "Parse (flags_2 [''GOFMLROOT'' \<mapsto> ''/srv/fml'']) [''-n'', ''bar'', ''example.com/foo''] =
     Inr (\<lparr>formal = [(''g'', ''/srv/fml''), (''n'', ''bar'')], actual = [''n'']\<rparr>,
          [''example.com/foo''])"
    by code_simp
  have r2: "NewInitTask_2 [''GOFMLROOT'' \<mapsto> ''/srv/fml''] [''-n'', ''bar'', ''example.com/foo''] =
     Returns \<lparr>GoFmlRoot_2 = ''/srv/fml'', ImportPath_2 = ''example.com/foo'',
              ProjectName_2 = ''bar'', GoFmlPath_2 = ''/srv/fml/bar'',
              ProjectPath_2 = ''/srv/fml/bar/src/example.com/foo''\<rparr>"
    by code_simp
  have p1: "Parse flags_1 [''example.com/foo''] =
     Inr (\<lparr>formal = [(''g'', []), (''n'', []), (''p'', [])], actual = []\<rparr>,
          [''example.com/foo''])"
    by code_simp
  have r1: "NewInitTask_1 [''example.com/foo''] =
     Returns \<lparr>GoPath_1 = ''/work/gofml/foo'', ImportPath_1 = ''example.com/foo'',
              ProjectName_1 = ''foo'',
              ProjectPath_1 = ''/work/gofml/foo/src/example.com/foo''\<rparr>"
    by code_simp
  show ?thesis
    using default_root
      [of "[''GOFMLROOT'' \<mapsto> ''/srv/fml'']" "[''-n'', ''bar'', ''example.com/foo'']"] p2 r2
      default_root [of Map.empty "[''example.com/foo'']"] p1 r1
    by (simp del: Join.simps)
qed

text \<open>
  The claim as stated fails twice. In the second implementation a variable that is set,
  to the empty string, gives the fallback path all the same; the first implementation
  takes no environment at all, and its root is \<open>/work/gofml\<close>.
\<close>

theorem default_root_counterexample:
  "[''GOFMLROOT'' \<mapsto> ([] :: string)] ''GOFMLROOT'' \<noteq> None \<and>
   NewInitTask_2 [''GOFMLROOT'' \<mapsto> []] [''example.com/foo''] =
     Returns \<lparr>GoFmlRoot_2 = ''~/gofml'', ImportPath_2 = ''example.com/foo'',
              ProjectName_2 = ''foo'', GoFmlPath_2 = ''~/gofml/foo'',
              ProjectPath_2 = ''~/gofml/foo/src/example.com/foo''\<rparr> \<and>
   NewInitTask_1 [''example.com/foo''] =
     Returns \<lparr>GoPath_1 = ''/work/gofml/foo'', ImportPath_1 = ''example.com/foo'',
              ProjectName_1 = ''foo'',
              ProjectPath_1 = ''/work/gofml/foo/src/example.com/foo''\<rparr>"
proof (intro conjI)
  show "[''GOFMLROOT'' \<mapsto> ([] :: string)] ''GOFMLROOT'' \<noteq> None"
    by simp
  show "NewInitTask_2 [''GOFMLROOT'' \<mapsto> []] [''example.com/foo''] =
     Returns \<lparr>GoFmlRoot_2 = ''~/gofml'', ImportPath_2 = ''example.com/foo'',
              ProjectName_2 = ''foo'', GoFmlPath_2 = ''~/gofml/foo'',
              ProjectPath_2 = ''~/gofml/foo/src/example.com/foo''\<rparr>"
    by code_simp
  show "NewInitTask_1 [''example.com/foo''] =
     Returns \<lparr>GoPath_1 = ''/work/gofml/foo'', ImportPath_1 = ''example.com/foo'',
              ProjectName_1 = ''foo'',
              ProjectPath_1 = ''/work/gofml/foo/src/example.com/foo''\<rparr>"
    by code_simp
qed

section \<open>Running the task\<close>

lemma script_1_rendered:
  "\<exists>tmpl. template_Parse False [] script_1 = Some tmpl \<and>
     template_Execute tmpl (fields_1 task) = Some (envrc_text (ImportPath_1 task) (GoPath_1 task))"
proof -
  have "template_Parse False [] script_1 =
      Some [Text ''\<newline>export GOFML='', Field ''ImportPath'', Text ''\<newline>export GOPATH='',
            Field ''GoPath'', Text (''\<newline>export PATH='' @ [CHR 0x22] @ ''$GOPATH/bin:$PATH'' @ [CHR 0x22] @ ''\<newline>'')]"
    by code_simp
  then show ?thesis
    by (simp add: fields_1_def envrc_text_def lines_text_def three_exports_def)
qed

lemma script_2_rendered:
  "\<exists>tmpl. template_Parse False [] script_2 = Some tmpl \<and>
     template_Execute tmpl (fields_2 task) = Some (envrc_text (ImportPath_2 task) (GoFmlPath_2 task))"
proof -
  have "template_Parse False [] script_2 =
      Some [Text ''\<newline>export GOFML='', Field ''ImportPath'', Text ''\<newline>export GOPATH='',
            Field ''GoFmlPath'', Text (''\<newline>export PATH='' @ [CHR 0x22] @ ''$GOPATH/bin:$PATH'' @ [CHR 0x22] @ ''\<newline>'')]"
    by code_simp
  then show ?thesis
    by (simp add: fields_2_def envrc_text_def lines_text_def three_exports_def)
qed

lemma writeEnvrc_1_steps:
  assumes "Remove flt (disk w) (Join [GoPath_1 task, ''.envrc'']) = (r, d2)"
    and "WriteFile flt d2 (Join [GoPath_1 task, ''.envrc''])
           (envrc_text (ImportPath_1 task) (GoPath_1 task)) = (e, d3)"
  shows "writeEnvrc_1 flt task w =
     (lift_errno e,
      w\<lparr>disk := d3,
        stdout := stdout w @ [''gofml: wrote activation script at ''
                          @ Join [GoPath_1 task, ''.envrc''] @ ''\<newline>'']\<rparr>)"
proof -
  obtain tmpl where "template_Parse False [] script_1 = Some tmpl"
    "template_Execute tmpl (fields_1 task) = Some (envrc_text (ImportPath_1 task) (GoPath_1 task))"
    using script_1_rendered by blast
  then show ?thesis
    using assms by (simp add: writeEnvrc_1_def Print_def del: Join.simps)
qed

lemma writeEnvrc_2_steps:
  assumes "Remove flt (disk w) (Join [GoFmlPath_2 task, ''.envrc'']) = (r, d2)"
    and "WriteFile flt d2 (Join [GoFmlPath_2 task, ''.envrc''])
           (envrc_text (ImportPath_2 task) (GoFmlPath_2 task)) = (e, d3)"
  shows "writeEnvrc_2 flt task w =
     (lift_errno e,
      w\<lparr>disk := d3,
        stdout := stdout w @ [''gofml: wrote activation script at ''
                          @ Join [GoFmlPath_2 task, ''.envrc''] @ ''\<newline>'']\<rparr>)"
proof -
  obtain tmpl where "template_Parse False [] script_2 = Some tmpl"
    "template_Execute tmpl (fields_2 task) = Some (envrc_text (ImportPath_2 task) (GoFmlPath_2 task))"
    using script_2_rendered by blast
  then show ?thesis
    using assms by (simp add: writeEnvrc_2_def Print_def del: Join.simps)
qed

lemma Run_1_mkdir_failed:
  assumes "MkdirAll flt (disk w) (ProjectPath_1 task) = (Some e, d)"
  shows "Run_1 task flt w =
     (Some (PathError e), w\<lparr>disk := d, stdout := stdout w @ banner_1 task\<rparr>)"
  using assms
  by (simp add: Run_1_def makeDir_1_def Print_def lift_errno_def banner_1_def Let_def)

lemma Run_2_mkdir_failed:
  assumes "MkdirAll flt (disk w) (ProjectPath_2 task) = (Some e, d)"
  shows "Run_2 task flt w =
     (Some (PathError e), w\<lparr>disk := d, stdout := stdout w @ banner_2 task\<rparr>)"
  using assms
  by (simp add: Run_2_def makeDir_2_def Print_def lift_errno_def banner_2_def Let_def)

lemma Run_1_written:
  assumes "MkdirAll flt (disk w) (ProjectPath_1 task) = (None, d1)"
    and "Remove flt d1 (Join [GoPath_1 task, ''.envrc'']) = (r, d2)"
    and "WriteFile flt d2 (Join [GoPath_1 task, ''.envrc''])
           (envrc_text (ImportPath_1 task) (GoPath_1 task)) = (e, d3)"
  shows "Run_1 task flt w =
     (map_option PathError e,
      w\<lparr>disk := d3,
        stdout := stdout w @ banner_1 task
          @ [''gofml: wrote activation script at '' @ Join [GoPath_1 task, ''.envrc'']
               @ ''\<newline>'']
          @ (if e = None then closing_1 task else [])\<rparr>)"
proof -
  define w1 where "w1 = w\<lparr>disk := d1, stdout := stdout w @ banner_1 task\<rparr>"
  have mk: "makeDir_1 flt task
       (Print (''GoPath='' @ GoPath_1 task @ '' \<newline>'')
       (Print (''ProjectPath='' @ ProjectPath_1 task @ '' \<newline>'')
       (Print (''ProjectName='' @ ProjectName_1 task @ '' \<newline>'')
       (Print (''ImportPath='' @ ImportPath_1 task @ '' \<newline>'')
       (Print ''gofml: initializing...\<newline>'' w))))) = (None, w1)"
    using assms(1) by (simp add: makeDir_1_def Print_def lift_errno_def banner_1_def w1_def)
  have wr: "writeEnvrc_1 flt task w1 =
     (lift_errno e,
      w1\<lparr>disk := d3,
        stdout := stdout w1 @ [''gofml: wrote activation script at ''
                          @ Join [GoPath_1 task, ''.envrc''] @ ''\<newline>'']\<rparr>)"
    by (rule writeEnvrc_1_steps [of flt w1 task r d2 e d3]) (use assms in \<open>simp_all add: w1_def\<close>)
  have step: "Run_1 task flt w =
     (case writeEnvrc_1 flt task w1 of
        (Some e, w) \<Rightarrow> (Some e, w)
      | (None, w) \<Rightarrow>
          (case printHints_1 task w of
             (Some e, w) \<Rightarrow> (Some e, w)
           | (None, w) \<Rightarrow> (None, Print ''gofml: done\<newline>'' w)))"
    unfolding Run_1_def Let_def mk by simp
  show ?thesis
    unfolding step wr
    by (cases e)
      (simp_all add: printHints_1_def Print_def lift_errno_def closing_1_def w1_def
        del: Join.simps)
qed

lemma Run_2_written:
  assumes "MkdirAll flt (disk w) (ProjectPath_2 task) = (None, d1)"
    and "Remove flt d1 (Join [GoFmlPath_2 task, ''.envrc'']) = (r, d2)"
    and "WriteFile flt d2 (Join [GoFmlPath_2 task, ''.envrc''])
           (envrc_text (ImportPath_2 task) (GoFmlPath_2 task)) = (e, d3)"
  shows "Run_2 task flt w =
     (map_option PathError e,
      w\<lparr>disk := d3,
        stdout := stdout w @ banner_2 task
          @ [''gofml: wrote activation script at '' @ Join [GoFmlPath_2 task, ''.envrc'']
               @ ''\<newline>'']
          @ (if e = None then closing_2 task else [])\<rparr>)"
proof -
  define w1 where "w1 = w\<lparr>disk := d1, stdout := stdout w @ banner_2 task\<rparr>"
  have mk: "makeDir_2 flt task
       (Print (''ProjectPath='' @ ProjectPath_2 task @ '' \<newline>'')
       (Print (''GoFmlPath='' @ GoFmlPath_2 task @ '' \<newline>'')
       (Print (''ProjectName='' @ ProjectName_2 task @ '' \<newline>'')
       (Print (''ImportPath='' @ ImportPath_2 task @ '' \<newline>'')
       (Print (''GoFmlRoot='' @ GoFmlRoot_2 task @ '' \<newline>'')
       (Print ''gofml: initializing...\<newline>'' w)))))) = (None, w1)"
    using assms(1) by (simp add: makeDir_2_def Print_def lift_errno_def banner_2_def w1_def)
  have wr: "writeEnvrc_2 flt task w1 =
     (lift_errno e,
      w1\<lparr>disk := d3,
        stdout := stdout w1 @ [''gofml: wrote activation script at ''
                          @ Join [GoFmlPath_2 task, ''.envrc''] @ ''\<newline>'']\<rparr>)"
    by (rule writeEnvrc_2_steps [of flt w1 task r d2 e d3]) (use assms in \<open>simp_all add: w1_def\<close>)
  have step: "Run_2 task flt w =
     (case writeEnvrc_2 flt task w1 of
        (Some e, w) \<Rightarrow> (Some e, w)
      | (None, w) \<Rightarrow>
          (case printHints_2 task w of
             (Some e, w) \<Rightarrow> (Some e, w)
           | (None, w) \<Rightarrow> (None, Print ''gofml: done\<newline>'' w)))"
    unfolding Run_2_def Let_def mk by simp
  show ?thesis
    unfolding step wr
    by (cases e)
      (simp_all add: printHints_2_def Print_def lift_errno_def closing_2_def w1_def
        del: Join.simps)
qed

lemma Run_1_ok:
  assumes "Run_1 task flt w = (None, w')"
  shows "\<exists>d1 r d2. MkdirAll flt (disk w) (ProjectPath_1 task) = (None, d1) \<and>
     Remove flt d1 (Join [GoPath_1 task, ''.envrc'']) = (r, d2) \<and>
     WriteFile flt d2 (Join [GoPath_1 task, ''.envrc''])
       (envrc_text (ImportPath_1 task) (GoPath_1 task)) = (None, disk w')"
proof -
  obtain e1 d1 where mk: "MkdirAll flt (disk w) (ProjectPath_1 task) = (e1, d1)"
    by (cases "MkdirAll flt (disk w) (ProjectPath_1 task)") auto
  obtain r d2 where rm: "Remove flt d1 (Join [GoPath_1 task, ''.envrc'']) = (r, d2)"
    by (cases "Remove flt d1 (Join [GoPath_1 task, ''.envrc''])") auto
  obtain e d3 where wr: "WriteFile flt d2 (Join [GoPath_1 task, ''.envrc''])
       (envrc_text (ImportPath_1 task) (GoPath_1 task)) = (e, d3)"
    by (cases "WriteFile flt d2 (Join [GoPath_1 task, ''.envrc''])
       (envrc_text (ImportPath_1 task) (GoPath_1 task))") auto
  have e1: "e1 = None"
    using assms Run_1_mkdir_failed [of flt w task _ d1] mk by (cases e1) auto
  have "e = None \<and> disk w' = d3"
    using assms Run_1_written [OF mk [unfolded e1] rm wr] by (cases e) auto
  then show ?thesis
    using mk e1 rm wr by blast
qed

lemma Run_2_ok:
  assumes "Run_2 task flt w = (None, w')"
  shows "\<exists>d1 r d2. MkdirAll flt (disk w) (ProjectPath_2 task) = (None, d1) \<and>
     Remove flt d1 (Join [GoFmlPath_2 task, ''.envrc'']) = (r, d2) \<and>
     WriteFile flt d2 (Join [GoFmlPath_2 task, ''.envrc''])
       (envrc_text (ImportPath_2 task) (GoFmlPath_2 task)) = (None, disk w')"
proof -
  obtain e1 d1 where mk: "MkdirAll flt (disk w) (ProjectPath_2 task) = (e1, d1)"
    by (cases "MkdirAll flt (disk w) (ProjectPath_2 task)") auto
  obtain r d2 where rm: "Remove flt d1 (Join [GoFmlPath_2 task, ''.envrc'']) = (r, d2)"
    by (cases "Remove flt d1 (Join [GoFmlPath_2 task, ''.envrc''])") auto
  obtain e d3 where wr: "WriteFile flt d2 (Join [GoFmlPath_2 task, ''.envrc''])
       (envrc_text (ImportPath_2 task) (GoFmlPath_2 task)) = (e, d3)"
    by (cases "WriteFile flt d2 (Join [GoFmlPath_2 task, ''.envrc''])
       (envrc_text (ImportPath_2 task) (GoFmlPath_2 task))") auto
  have e1: "e1 = None"
    using assms Run_2_mkdir_failed [of flt w task _ d1] mk by (cases e1) auto
  have "e = None \<and> disk w' = d3"
    using assms Run_2_written [OF mk [unfolded e1] rm wr] by (cases e) auto
  then show ?thesis
    using mk e1 rm wr by blast
qed

text \<open>
  The three steps on the file system: afterwards the script is the file at its path, and
  every other place is a file with some content exactly when it was before.
\<close>

lemma script_written:
  assumes mk: "MkdirAll flt fs pp = (None, d1)"
    and rm: "Remove flt d1 envrc = (r, d2)"
    and wr: "WriteFile flt d2 envrc data = (None, d3)"
  shows "stat d3 envrc = Some (File data)"
    and "resolve d3 envrc \<noteq> Inr k \<Longrightarrow>
           (node_at d3 k = Some (File c)) = (node_at fs k = Some (File c))"
proof -
  obtain K where K: "resolve d2 envrc = Inr K" "K \<noteq> []" "node_at d2 K \<noteq> Some Directory"
      "d3 = set_node d2 K (File data)"
    using WriteFile_ok [OF wr] by blast
  have r3: "resolve d3 envrc = Inr K"
  proof (rule resolve_mono [OF _ _ K(1)])
    show "cwd d3 = cwd d2"
      by (simp add: K(4) cwd_set)
    fix q
    assume "node_at d2 q = Some Directory"
    then show "node_at d3 q = Some Directory"
      using K(3) by (auto simp: K(4) node_at_set)
  qed
  show "stat d3 envrc = Some (File data)"
    using r3 K(2) by (simp add: stat_def K(4) node_at_set)
  assume "resolve d3 envrc \<noteq> Inr k"
  then have k: "k \<noteq> K"
    using r3 by auto
  have s3: "node_at d3 k = node_at d2 k"
    using k by (simp add: K(4) node_at_set node_at_root)
  have s2: "(node_at d2 k = Some (File c)) = (node_at d1 k = Some (File c))"
  proof -
    consider "d2 = d1"
      | k1 where "resolve d1 envrc = Inr k1" "k1 \<noteq> []" "d2 = del_node d1 k1"
          "node_at d1 k1 = Some Directory"
      | k1 c1 where "resolve d1 envrc = Inr k1" "k1 \<noteq> []" "d2 = del_node d1 k1"
          "node_at d1 k1 = Some (File c1)"
      using Remove_cases [OF rm] by blast
    then show ?thesis
    proof cases
      case 1
      then show ?thesis by simp
    next
      case 2
      then show ?thesis
        by (auto simp: node_at_del node_at_root)
    next
      case 3
      have "resolve d2 envrc = Inr k1"
      proof (rule resolve_mono [OF _ _ 3(1)])
        show "cwd d2 = cwd d1"
          by (simp add: 3(3) cwd_del)
        fix q
        assume "node_at d1 q = Some Directory"
        then show "node_at d2 q = Some Directory"
          using 3(4) by (auto simp: 3(3) node_at_del)
      qed
      then have "k1 = K"
        using K(1) by simp
      then show ?thesis
        using k by (auto simp: 3(3) node_at_del node_at_root)
    qed
  qed
  have s1: "(node_at d1 k = Some (File c)) = (node_at fs k = Some (File c))"
    using MkdirAll_grows [OF mk] unfolding grows_def
    by (metis node.distinct(1) option.distinct(1) option.inject)
  show "(node_at d3 k = Some (File c)) = (node_at fs k = Some (File c))"
    using s3 s2 s1 by simp
qed


lemma split_lines_line:
  "CHR ''\<newline>'' \<notin> set l \<Longrightarrow> split_lines (l @ CHR ''\<newline>'' # rest) = l # split_lines rest"
  by (induction l) auto

lemma export_lines_three:
  assumes "CHR ''\<newline>'' \<notin> set importPath" and "CHR ''\<newline>'' \<notin> set workspace"
  shows "export_lines (envrc_text importPath workspace) = three_exports importPath workspace"
proof -
  have l1: "CHR ''\<newline>'' \<notin> set (''export GOFML='' @ importPath)"
    using assms by simp
  have l2: "CHR ''\<newline>'' \<notin> set (''export GOPATH='' @ workspace)"
    using assms by simp
  have l3: "CHR ''\<newline>'' \<notin> set (''export PATH='' @ [CHR 0x22] @ ''$GOPATH/bin:$PATH'' @ [CHR 0x22])"
    by simp
  have "split_lines (envrc_text importPath workspace) =
      [[], ''export GOFML='' @ importPath, ''export GOPATH='' @ workspace,
       ''export PATH='' @ [CHR 0x22] @ ''$GOPATH/bin:$PATH'' @ [CHR 0x22], []]"
    unfolding envrc_text_def lines_text_def three_exports_def
    using split_lines_line [OF l1] split_lines_line [OF l2] split_lines_line [OF l3]
    by simp
  then show ?thesis
    by (simp add: export_lines_def three_exports_def)
qed

text \<open>
  Claim C4, as amended. After every run of the task that succeeds, in both
  implementations and whatever the file system held before, the path \<open>.envrc\<close> under
  the workspace path is a file whose content is an empty line followed by the three
  export statements with the import path and the workspace path put in as they are (the
  import path, the workspace path, and the search path with the bin directory of the
  workspace in front), and it is the only file that changed: every other place is a
  file with some content exactly when it was before the run. When the import path
  and the workspace path hold no line break, the three statements are exactly the
  export lines of that content.
\<close>

theorem envrc_is_written:
  "(\<forall>w'. Run_1 task1 flt w = (None, w') \<longrightarrow>
      stat (disk w') (Join [GoPath_1 task1, ''.envrc'']) =
        Some (File (''\<newline>'' @ lines_text (three_exports (ImportPath_1 task1) (GoPath_1 task1)))) \<and>
      (\<forall>k c. resolve (disk w') (Join [GoPath_1 task1, ''.envrc'']) \<noteq> Inr k \<longrightarrow>
         (node_at (disk w') k = Some (File c)) = (node_at (disk w) k = Some (File c)))) \<and>
   (\<forall>w'. Run_2 task2 flt w = (None, w') \<longrightarrow>
      stat (disk w') (Join [GoFmlPath_2 task2, ''.envrc'']) =
        Some (File (''\<newline>'' @ lines_text (three_exports (ImportPath_2 task2) (GoFmlPath_2 task2)))) \<and>
      (\<forall>k c. resolve (disk w') (Join [GoFmlPath_2 task2, ''.envrc'']) \<noteq> Inr k \<longrightarrow>
         (node_at (disk w') k = Some (File c)) = (node_at (disk w) k = Some (File c)))) \<and>
   (\<forall>importPath workspace.
      CHR ''\<newline>'' \<notin> set importPath \<longrightarrow> CHR ''\<newline>'' \<notin> set workspace \<longrightarrow>
      export_lines (''\<newline>'' @ lines_text (three_exports importPath workspace)) =
        three_exports importPath workspace)"
proof (intro conjI allI impI)
  fix w'
  assume "Run_1 task1 flt w = (None, w')"
  then obtain d1 r d2 where s: "MkdirAll flt (disk w) (ProjectPath_1 task1) = (None, d1)"
     "Remove flt d1 (Join [GoPath_1 task1, ''.envrc'']) = (r, d2)"
     "WriteFile flt d2 (Join [GoPath_1 task1, ''.envrc''])
       (envrc_text (ImportPath_1 task1) (GoPath_1 task1)) = (None, disk w')"
    using Run_1_ok by blast
  show "stat (disk w') (Join [GoPath_1 task1, ''.envrc'']) =
        Some (File (''\<newline>'' @ lines_text (three_exports (ImportPath_1 task1) (GoPath_1 task1))))"
    using script_written(1) [OF s] by (simp add: envrc_text_def)
  fix k c
  assume "resolve (disk w') (Join [GoPath_1 task1, ''.envrc'']) \<noteq> Inr k"
  then show "(node_at (disk w') k = Some (File c)) = (node_at (disk w) k = Some (File c))"
    by (rule script_written(2) [OF s])
next
  fix w'
  assume "Run_2 task2 flt w = (None, w')"
  then obtain d1 r d2 where s: "MkdirAll flt (disk w) (ProjectPath_2 task2) = (None, d1)"
     "Remove flt d1 (Join [GoFmlPath_2 task2, ''.envrc'']) = (r, d2)"
     "WriteFile flt d2 (Join [GoFmlPath_2 task2, ''.envrc''])
       (envrc_text (ImportPath_2 task2) (GoFmlPath_2 task2)) = (None, disk w')"
    using Run_2_ok by blast
  show "stat (disk w') (Join [GoFmlPath_2 task2, ''.envrc'']) =
        Some (File (''\<newline>'' @ lines_text (three_exports (ImportPath_2 task2) (GoFmlPath_2 task2))))"
    using script_written(1) [OF s] by (simp add: envrc_text_def)
  fix k c
  assume "resolve (disk w') (Join [GoFmlPath_2 task2, ''.envrc'']) \<noteq> Inr k"
  then show "(node_at (disk w') k = Some (File c)) = (node_at (disk w) k = Some (File c))"
    by (rule script_written(2) [OF s])
next
  fix importPath workspace
  assume "CHR ''\<newline>'' \<notin> set importPath" and "CHR ''\<newline>'' \<notin> set workspace"
  then show "export_lines (''\<newline>'' @ lines_text (three_exports importPath workspace)) =
        three_exports importPath workspace"
    using export_lines_three [of importPath workspace] by (simp add: envrc_text_def)
qed

theorem envrc_is_written_witness:
  \<open>fst (Run_1 \<lparr>GoPath_1 = ''/work/gofml/foo'', ImportPath_1 = ''example.com/foo'',
                ProjectName_1 = ''foo'',
                ProjectPath_1 = ''/work/gofml/foo/src/example.com/foo''\<rparr> no_faults
          \<lparr>disk = \<lparr>cwd = [''home'', ''u''],
                   tree = [([''home''], Directory), ([''home'', ''u''], Directory),
                     ([''work''], Directory), ([''work'', ''gofml''], Directory),
                     ([''work'', ''gofml'', ''foo''], Directory),
                     ([''work'', ''gofml'', ''foo'', ''.envrc''], File ''old''),
                     ([''etc''], Directory), ([''etc'', ''hosts''], File ''h'')]\<rparr>,
           stdout = [], stderr = []\<rparr>) = None \<and>
   stat (disk (snd (Run_1 \<lparr>GoPath_1 = ''/work/gofml/foo'', ImportPath_1 = ''example.com/foo'',
                ProjectName_1 = ''foo'',
                ProjectPath_1 = ''/work/gofml/foo/src/example.com/foo''\<rparr> no_faults
          \<lparr>disk = \<lparr>cwd = [''home'', ''u''],
                   tree = [([''home''], Directory), ([''home'', ''u''], Directory),
                     ([''work''], Directory), ([''work'', ''gofml''], Directory),
                     ([''work'', ''gofml'', ''foo''], Directory),
                     ([''work'', ''gofml'', ''foo'', ''.envrc''], File ''old''),
                     ([''etc''], Directory), ([''etc'', ''hosts''], File ''h'')]\<rparr>,
           stdout = [], stderr = []\<rparr>))) ''/work/gofml/foo/.envrc'' =
     Some (File ''\<newline>export GOFML=example.com/foo\<newline>export GOPATH=/work/gofml/foo\<newline>export PATH="$GOPATH/bin:$PATH"\<newline>'') \<and>
   resolve (disk (snd (Run_1 \<lparr>GoPath_1 = ''/work/gofml/foo'', ImportPath_1 = ''example.com/foo'',
                ProjectName_1 = ''foo'',
                ProjectPath_1 = ''/work/gofml/foo/src/example.com/foo''\<rparr> no_faults
          \<lparr>disk = \<lparr>cwd = [''home'', ''u''],
                   tree = [([''home''], Directory), ([''home'', ''u''], Directory),
                     ([''work''], Directory), ([''work'', ''gofml''], Directory),
                     ([''work'', ''gofml'', ''foo''], Directory),
                     ([''work'', ''gofml'', ''foo'', ''.envrc''], File ''old''),
                     ([''etc''], Directory), ([''etc'', ''hosts''], File ''h'')]\<rparr>,
           stdout = [], stderr = []\<rparr>))) ''/work/gofml/foo/.envrc'' \<noteq> Inr [''etc'', ''hosts''] \<and>
   node_at (disk (snd (Run_1 \<lparr>GoPath_1 = ''/work/gofml/foo'', ImportPath_1 = ''example.com/foo'',
                ProjectName_1 = ''foo'',
                ProjectPath_1 = ''/work/gofml/foo/src/example.com/foo''\<rparr> no_faults
          \<lparr>disk = \<lparr>cwd = [''home'', ''u''],
                   tree = [([''home''], Directory), ([''home'', ''u''], Directory),
                     ([''work''], Directory), ([''work'', ''gofml''], Directory),
                     ([''work'', ''gofml'', ''foo''], Directory),
                     ([''work'', ''gofml'', ''foo'', ''.envrc''], File ''old''),
                     ([''etc''], Directory), ([''etc'', ''hosts''], File ''h'')]\<rparr>,
           stdout = [], stderr = []\<rparr>))) [''etc'', ''hosts''] = Some (File ''h'') \<and>
   fst (Run_2 \<lparr>GoFmlRoot_2 = ''~/gofml'', ImportPath_2 = ''example.com/foo'',
                ProjectName_2 = ''foo'', GoFmlPath_2 = ''~/gofml/foo'',
                ProjectPath_2 = ''~/gofml/foo/src/example.com/foo''\<rparr> no_faults
          \<lparr>disk = \<lparr>cwd = [''home'', ''u''],
                   tree = [([''home''], Directory), ([''home'', ''u''], Directory),
                     ([''etc''], Directory), ([''etc'', ''hosts''], File ''h'')]\<rparr>,
           stdout = [], stderr = []\<rparr>) = None \<and>
   stat (disk (snd (Run_2 \<lparr>GoFmlRoot_2 = ''~/gofml'', ImportPath_2 = ''example.com/foo'',
                ProjectName_2 = ''foo'', GoFmlPath_2 = ''~/gofml/foo'',
                ProjectPath_2 = ''~/gofml/foo/src/example.com/foo''\<rparr> no_faults
          \<lparr>disk = \<lparr>cwd = [''home'', ''u''],
                   tree = [([''home''], Directory), ([''home'', ''u''], Directory),
                     ([''etc''], Directory), ([''etc'', ''hosts''], File ''h'')]\<rparr>,
           stdout = [], stderr = []\<rparr>))) ''~/gofml/foo/.envrc'' =
     Some (File ''\<newline>export GOFML=example.com/foo\<newline>export GOPATH=~/gofml/foo\<newline>export PATH="$GOPATH/bin:$PATH"\<newline>'') \<and>
   resolve (disk (snd (Run_2 \<lparr>GoFmlRoot_2 = ''~/gofml'', ImportPath_2 = ''example.com/foo'',
                ProjectName_2 = ''foo'', GoFmlPath_2 = ''~/gofml/foo'',
                ProjectPath_2 = ''~/gofml/foo/src/example.com/foo''\<rparr> no_faults
          \<lparr>disk = \<lparr>cwd = [''home'', ''u''],
                   tree = [([''home''], Directory), ([''home'', ''u''], Directory),
                     ([''etc''], Directory), ([''etc'', ''hosts''], File ''h'')]\<rparr>,
           stdout = [], stderr = []\<rparr>))) ''~/gofml/foo/.envrc'' \<noteq> Inr [''etc'', ''hosts''] \<and>
   node_at (disk (snd (Run_2 \<lparr>GoFmlRoot_2 = ''~/gofml'', ImportPath_2 = ''example.com/foo'',
                ProjectName_2 = ''foo'', GoFmlPath_2 = ''~/gofml/foo'',
                ProjectPath_2 = ''~/gofml/foo/src/example.com/foo''\<rparr> no_faults
          \<lparr>disk = \<lparr>cwd = [''home'', ''u''],
                   tree = [([''home''], Directory), ([''home'', ''u''], Directory),
                     ([''etc''], Directory), ([''etc'', ''hosts''], File ''h'')]\<rparr>,
           stdout = [], stderr = []\<rparr>))) [''etc'', ''hosts''] = Some (File ''h'') \<and>
   export_lines ''\<newline>export GOFML=example.com/foo\<newline>export GOPATH=~/gofml/foo\<newline>export PATH="$GOPATH/bin:$PATH"\<newline>'' =
     [''export GOFML=example.com/foo'', ''export GOPATH=~/gofml/foo'',
      ''export PATH="$GOPATH/bin:$PATH"'']\<close>
proof -
  define t1 where "t1 = \<lparr>GoPath_1 = ''/work/gofml/foo'', ImportPath_1 = ''example.com/foo'',
                ProjectName_1 = ''foo'',
                ProjectPath_1 = ''/work/gofml/foo/src/example.com/foo''\<rparr>"
  define w1 where "w1 = \<lparr>disk = \<lparr>cwd = [''home'', ''u''],
                   tree = [([''home''], Directory), ([''home'', ''u''], Directory),
                     ([''work''], Directory), ([''work'', ''gofml''], Directory),
                     ([''work'', ''gofml'', ''foo''], Directory),
                     ([''work'', ''gofml'', ''foo'', ''.envrc''], File ''old''),
                     ([''etc''], Directory), ([''etc'', ''hosts''], File ''h'')]\<rparr>,
           stdout = [], stderr = []\<rparr>"
  define t2 where "t2 = \<lparr>GoFmlRoot_2 = ''~/gofml'', ImportPath_2 = ''example.com/foo'',
                ProjectName_2 = ''foo'', GoFmlPath_2 = ''~/gofml/foo'',
                ProjectPath_2 = ''~/gofml/foo/src/example.com/foo''\<rparr>"
  define w2 where "w2 = \<lparr>disk = \<lparr>cwd = [''home'', ''u''],
                   tree = [([''home''], Directory), ([''home'', ''u''], Directory),
                     ([''etc''], Directory), ([''etc'', ''hosts''], File ''h'')]\<rparr>,
           stdout = [], stderr = []\<rparr>"
  have ok1: "fst (Run_1 t1 no_faults w1) = None"
    unfolding t1_def w1_def by code_simp
  have ok2: "fst (Run_2 t2 no_faults w2) = None"
    unfolding t2_def w2_def by code_simp
  have r1: "Run_1 t1 no_faults w1 = (None, snd (Run_1 t1 no_faults w1))"
    using ok1 by (metis prod.collapse)
  have r2: "Run_2 t2 no_faults w2 = (None, snd (Run_2 t2 no_faults w2))"
    using ok2 by (metis prod.collapse)
  have j1: "Join [GoPath_1 t1, ''.envrc''] = ''/work/gofml/foo/.envrc''"
    unfolding t1_def by code_simp
  have j2: "Join [GoFmlPath_2 t2, ''.envrc''] = ''~/gofml/foo/.envrc''"
    unfolding t2_def by code_simp
  have c1: "resolve (disk (snd (Run_1 t1 no_faults w1))) ''/work/gofml/foo/.envrc'' \<noteq>
      Inr [''etc'', ''hosts'']"
    unfolding t1_def w1_def by code_simp
  have c2: "resolve (disk (snd (Run_2 t2 no_faults w2))) ''~/gofml/foo/.envrc'' \<noteq>
      Inr [''etc'', ''hosts'']"
    unfolding t2_def w2_def by code_simp
  have h1: "node_at (disk w1) [''etc'', ''hosts''] = Some (File ''h'')"
    unfolding w1_def by code_simp
  have h2: "node_at (disk w2) [''etc'', ''hosts''] = Some (File ''h'')"
    unfolding w2_def by code_simp
  note th1 = envrc_is_written [of t1 no_faults w1 t2]
  note th2 = envrc_is_written [of t1 no_faults w2 t2]
  have "stat (disk (snd (Run_1 t1 no_faults w1))) ''/work/gofml/foo/.envrc'' =
      Some (File (''\<newline>'' @ lines_text (three_exports (ImportPath_1 t1) (GoPath_1 t1))))"
    using th1 r1 j1 by metis
  moreover have "node_at (disk (snd (Run_1 t1 no_faults w1))) [''etc'', ''hosts''] =
      Some (File ''h'')"
    using th1 r1 j1 c1 h1 by metis
  moreover have "stat (disk (snd (Run_2 t2 no_faults w2))) ''~/gofml/foo/.envrc'' =
      Some (File (''\<newline>'' @ lines_text (three_exports (ImportPath_2 t2) (GoFmlPath_2 t2))))"
    using th2 r2 j2 by metis
  moreover have "node_at (disk (snd (Run_2 t2 no_faults w2))) [''etc'', ''hosts''] =
      Some (File ''h'')"
    using th2 r2 j2 c2 h2 by metis
  moreover have "export_lines
      (''\<newline>'' @ lines_text (three_exports ''example.com/foo'' ''~/gofml/foo'')) =
      three_exports ''example.com/foo'' ''~/gofml/foo''"
    using th1 by simp
  ultimately show ?thesis
    using ok1 ok2 c1 c2
    unfolding t1_def [symmetric] w1_def [symmetric] t2_def [symmetric] w2_def [symmetric]
    by (simp add: t1_def t2_def lines_text_def three_exports_def)
qed

text \<open>
  The claim as stated fails when a value holds a line break: the template puts the
  values in as they are, and the import path of this run adds a fourth export line.
\<close>

theorem envrc_is_written_counterexample:
  \<open>NewInitTask_2 Map.empty [''-n'', ''foo'', ''x\<newline>export EVIL=1''] =
     Returns \<lparr>GoFmlRoot_2 = ''~/gofml'', ImportPath_2 = ''x\<newline>export EVIL=1'',
              ProjectName_2 = ''foo'', GoFmlPath_2 = ''~/gofml/foo'',
              ProjectPath_2 = ''~/gofml/foo/src/x\<newline>export EVIL=1''\<rparr> \<and>
   fst (Run_2 \<lparr>GoFmlRoot_2 = ''~/gofml'', ImportPath_2 = ''x\<newline>export EVIL=1'',
              ProjectName_2 = ''foo'', GoFmlPath_2 = ''~/gofml/foo'',
              ProjectPath_2 = ''~/gofml/foo/src/x\<newline>export EVIL=1''\<rparr> no_faults
          \<lparr>disk = \<lparr>cwd = [], tree = []\<rparr>, stdout = [], stderr = []\<rparr>) = None \<and>
   stat (disk (snd (Run_2 \<lparr>GoFmlRoot_2 = ''~/gofml'', ImportPath_2 = ''x\<newline>export EVIL=1'',
              ProjectName_2 = ''foo'', GoFmlPath_2 = ''~/gofml/foo'',
              ProjectPath_2 = ''~/gofml/foo/src/x\<newline>export EVIL=1''\<rparr> no_faults
          \<lparr>disk = \<lparr>cwd = [], tree = []\<rparr>, stdout = [], stderr = []\<rparr>))) ''~/gofml/foo/.envrc'' =
     Some (File ''\<newline>export GOFML=x\<newline>export EVIL=1\<newline>export GOPATH=~/gofml/foo\<newline>export PATH="$GOPATH/bin:$PATH"\<newline>'') \<and>
   export_lines ''\<newline>export GOFML=x\<newline>export EVIL=1\<newline>export GOPATH=~/gofml/foo\<newline>export PATH="$GOPATH/bin:$PATH"\<newline>'' =
     [''export GOFML=x'', ''export EVIL=1'', ''export GOPATH=~/gofml/foo'',
      ''export PATH="$GOPATH/bin:$PATH"''] \<and>
   NewInitTask_1 [''-n'', ''foo'', ''x\<newline>export EVIL=1''] =
     Returns \<lparr>GoPath_1 = ''/work/gofml/foo'', ImportPath_1 = ''x\<newline>export EVIL=1'',
              ProjectName_1 = ''foo'',
              ProjectPath_1 = ''/work/gofml/foo/src/x\<newline>export EVIL=1''\<rparr> \<and>
   stat (disk (snd (Run_1 \<lparr>GoPath_1 = ''/work/gofml/foo'', ImportPath_1 = ''x\<newline>export EVIL=1'',
              ProjectName_1 = ''foo'',
              ProjectPath_1 = ''/work/gofml/foo/src/x\<newline>export EVIL=1''\<rparr> no_faults
          \<lparr>disk = \<lparr>cwd = [], tree = []\<rparr>, stdout = [], stderr = []\<rparr>))) ''/work/gofml/foo/.envrc'' =
     Some (File ''\<newline>export GOFML=x\<newline>export EVIL=1\<newline>export GOPATH=/work/gofml/foo\<newline>export PATH="$GOPATH/bin:$PATH"\<newline>'') \<and>
   export_lines ''\<newline>export GOFML=x\<newline>export EVIL=1\<newline>export GOPATH=/work/gofml/foo\<newline>export PATH="$GOPATH/bin:$PATH"\<newline>'' =
     [''export GOFML=x'', ''export EVIL=1'', ''export GOPATH=/work/gofml/foo'',
      ''export PATH="$GOPATH/bin:$PATH"'']\<close>
  by code_simp




text \<open>
  Claim C6, as amended. In both implementations: a failure of the directory creation
  is returned to the caller, and nothing is removed or written after it; when the
  directory creation succeeds, a failure of the script write is returned to the caller
  and the closing lines are not printed; when both succeed the run succeeds. After a
  failure the file system is as the failing call left it, with the directories that
  were made and the bytes of the script that were written before (no rollback). The
  outcome \<open>r\<close> of removing the previous script does not matter: every failure of the
  removal is ignored, whatever its kind.
\<close>

theorem failures_abort:
  "(\<forall>e d. MkdirAll flt (disk w) (ProjectPath_1 task1) = (Some e, d) \<longrightarrow>
      Run_1 task1 flt w =
        (Some (PathError e), w\<lparr>disk := d, stdout := stdout w @ banner_1 task1\<rparr>) \<and>
      grows (disk w) d) \<and>
   (\<forall>d1 r d2 e d3. MkdirAll flt (disk w) (ProjectPath_1 task1) = (None, d1) \<longrightarrow>
      Remove flt d1 (Join [GoPath_1 task1, ''.envrc'']) = (r, d2) \<longrightarrow>
      WriteFile flt d2 (Join [GoPath_1 task1, ''.envrc'']) (envrc_text (ImportPath_1 task1) (GoPath_1 task1)) = (Some e, d3) \<longrightarrow>
      Run_1 task1 flt w =
        (Some (PathError e),
         w\<lparr>disk := d3,
           stdout := stdout w @ banner_1 task1
             @ [''gofml: wrote activation script at '' @ Join [GoPath_1 task1, ''.envrc''] @ ''\<newline>'']\<rparr>) \<and>
      (\<forall>k. node_at d2 k = Some Directory \<longrightarrow> node_at d3 k = Some Directory)) \<and>
   (\<forall>d1 r d2 d3. MkdirAll flt (disk w) (ProjectPath_1 task1) = (None, d1) \<longrightarrow>
      Remove flt d1 (Join [GoPath_1 task1, ''.envrc'']) = (r, d2) \<longrightarrow>
      WriteFile flt d2 (Join [GoPath_1 task1, ''.envrc'']) (envrc_text (ImportPath_1 task1) (GoPath_1 task1)) = (None, d3) \<longrightarrow>
      Run_1 task1 flt w =
        (None,
         w\<lparr>disk := d3,
           stdout := stdout w @ banner_1 task1
             @ [''gofml: wrote activation script at '' @ Join [GoPath_1 task1, ''.envrc''] @ ''\<newline>'']
             @ closing_1 task1\<rparr>)) \<and>
   (\<forall>e d. MkdirAll flt (disk w) (ProjectPath_2 task2) = (Some e, d) \<longrightarrow>
      Run_2 task2 flt w =
        (Some (PathError e), w\<lparr>disk := d, stdout := stdout w @ banner_2 task2\<rparr>) \<and>
      grows (disk w) d) \<and>
   (\<forall>d1 r d2 e d3. MkdirAll flt (disk w) (ProjectPath_2 task2) = (None, d1) \<longrightarrow>
      Remove flt d1 (Join [GoFmlPath_2 task2, ''.envrc'']) = (r, d2) \<longrightarrow>
      WriteFile flt d2 (Join [GoFmlPath_2 task2, ''.envrc'']) (envrc_text (ImportPath_2 task2) (GoFmlPath_2 task2)) = (Some e, d3) \<longrightarrow>
      Run_2 task2 flt w =
        (Some (PathError e),
         w\<lparr>disk := d3,
           stdout := stdout w @ banner_2 task2
             @ [''gofml: wrote activation script at '' @ Join [GoFmlPath_2 task2, ''.envrc''] @ ''\<newline>'']\<rparr>) \<and>
      (\<forall>k. node_at d2 k = Some Directory \<longrightarrow> node_at d3 k = Some Directory)) \<and>
   (\<forall>d1 r d2 d3. MkdirAll flt (disk w) (ProjectPath_2 task2) = (None, d1) \<longrightarrow>
      Remove flt d1 (Join [GoFmlPath_2 task2, ''.envrc'']) = (r, d2) \<longrightarrow>
      WriteFile flt d2 (Join [GoFmlPath_2 task2, ''.envrc'']) (envrc_text (ImportPath_2 task2) (GoFmlPath_2 task2)) = (None, d3) \<longrightarrow>
      Run_2 task2 flt w =
        (None,
         w\<lparr>disk := d3,
           stdout := stdout w @ banner_2 task2
             @ [''gofml: wrote activation script at '' @ Join [GoFmlPath_2 task2, ''.envrc''] @ ''\<newline>'']
             @ closing_2 task2\<rparr>))"
proof (intro conjI allI impI)
  fix e d
  assume m: "MkdirAll flt (disk w) (ProjectPath_1 task1) = (Some e, d)"
  then show "Run_1 task1 flt w =
        (Some (PathError e), w\<lparr>disk := d, stdout := stdout w @ banner_1 task1\<rparr>)"
    by (rule Run_1_mkdir_failed)
  show "grows (disk w) d"
    using m by (rule MkdirAll_grows)
next
  fix d1 r d2 e d3
  assume s: "MkdirAll flt (disk w) (ProjectPath_1 task1) = (None, d1)"
    "Remove flt d1 (Join [GoPath_1 task1, ''.envrc'']) = (r, d2)"
    "WriteFile flt d2 (Join [GoPath_1 task1, ''.envrc''])
       (envrc_text (ImportPath_1 task1) (GoPath_1 task1)) = (Some e, d3)"
  show "Run_1 task1 flt w =
        (Some (PathError e),
         w\<lparr>disk := d3,
           stdout := stdout w @ banner_1 task1
             @ [''gofml: wrote activation script at '' @ Join [GoPath_1 task1, ''.envrc'']
                  @ ''\<newline>'']\<rparr>)"
    using Run_1_written [OF s] by simp
  fix k
  assume "node_at d2 k = Some Directory"
  then show "node_at d3 k = Some Directory"
    by (rule WriteFile_keeps [OF s(3)])
next
  fix d1 r d2 d3
  assume s: "MkdirAll flt (disk w) (ProjectPath_1 task1) = (None, d1)"
    "Remove flt d1 (Join [GoPath_1 task1, ''.envrc'']) = (r, d2)"
    "WriteFile flt d2 (Join [GoPath_1 task1, ''.envrc''])
       (envrc_text (ImportPath_1 task1) (GoPath_1 task1)) = (None, d3)"
  show "Run_1 task1 flt w =
        (None,
         w\<lparr>disk := d3,
           stdout := stdout w @ banner_1 task1
             @ [''gofml: wrote activation script at '' @ Join [GoPath_1 task1, ''.envrc'']
                  @ ''\<newline>'']
             @ closing_1 task1\<rparr>)"
    using Run_1_written [OF s] by simp
next
  fix e d
  assume m: "MkdirAll flt (disk w) (ProjectPath_2 task2) = (Some e, d)"
  then show "Run_2 task2 flt w =
        (Some (PathError e), w\<lparr>disk := d, stdout := stdout w @ banner_2 task2\<rparr>)"
    by (rule Run_2_mkdir_failed)
  show "grows (disk w) d"
    using m by (rule MkdirAll_grows)
next
  fix d1 r d2 e d3
  assume s: "MkdirAll flt (disk w) (ProjectPath_2 task2) = (None, d1)"
    "Remove flt d1 (Join [GoFmlPath_2 task2, ''.envrc'']) = (r, d2)"
    "WriteFile flt d2 (Join [GoFmlPath_2 task2, ''.envrc''])
       (envrc_text (ImportPath_2 task2) (GoFmlPath_2 task2)) = (Some e, d3)"
  show "Run_2 task2 flt w =
        (Some (PathError e),
         w\<lparr>disk := d3,
           stdout := stdout w @ banner_2 task2
             @ [''gofml: wrote activation script at '' @ Join [GoFmlPath_2 task2, ''.envrc'']
                  @ ''\<newline>'']\<rparr>)"
    using Run_2_written [OF s] by simp
  fix k
  assume "node_at d2 k = Some Directory"
  then show "node_at d3 k = Some Directory"
    by (rule WriteFile_keeps [OF s(3)])
next
  fix d1 r d2 d3
  assume s: "MkdirAll flt (disk w) (ProjectPath_2 task2) = (None, d1)"
    "Remove flt d1 (Join [GoFmlPath_2 task2, ''.envrc'']) = (r, d2)"
    "WriteFile flt d2 (Join [GoFmlPath_2 task2, ''.envrc''])
       (envrc_text (ImportPath_2 task2) (GoFmlPath_2 task2)) = (None, d3)"
  show "Run_2 task2 flt w =
        (None,
         w\<lparr>disk := d3,
           stdout := stdout w @ banner_2 task2
             @ [''gofml: wrote activation script at '' @ Join [GoFmlPath_2 task2, ''.envrc'']
                  @ ''\<newline>'']
             @ closing_2 task2\<rparr>)"
    using Run_2_written [OF s] by simp
qed

theorem failures_abort_witness:
  "MkdirAll \<lparr>mkdir_fault = (\<lambda>path. if path = ''/r/p/src'' then Some EACCES else None), remove_fault = (\<lambda>path. None), open_fault = (\<lambda>path. None), write_fault = (\<lambda>path. None)\<rparr> \<lparr>cwd = [], tree = []\<rparr> ''/r/p/src/p'' =
     (Some EACCES, \<lparr>cwd = [], tree = [([''r''], Directory), ([''r'', ''p''], Directory)]\<rparr>) \<and>
   MkdirAll \<lparr>mkdir_fault = (\<lambda>path. None), remove_fault = (\<lambda>path. None), open_fault = (\<lambda>path. None), write_fault = (\<lambda>path. Some (ENOSPC, 0))\<rparr> \<lparr>cwd = [], tree = []\<rparr> ''/r/p/src/p'' =
     (None, \<lparr>cwd = [], tree = [([''r''], Directory), ([''r'', ''p''], Directory),
      ([''r'', ''p'', ''src''], Directory), ([''r'', ''p'', ''src'', ''p''], Directory)]\<rparr>) \<and>
   Remove \<lparr>mkdir_fault = (\<lambda>path. None), remove_fault = (\<lambda>path. None), open_fault = (\<lambda>path. None), write_fault = (\<lambda>path. Some (ENOSPC, 0))\<rparr>
     \<lparr>cwd = [], tree = [([''r''], Directory), ([''r'', ''p''], Directory),
      ([''r'', ''p'', ''src''], Directory), ([''r'', ''p'', ''src'', ''p''], Directory)]\<rparr> ''/r/p/.envrc'' =
     (Some ENOENT, \<lparr>cwd = [], tree = [([''r''], Directory), ([''r'', ''p''], Directory),
      ([''r'', ''p'', ''src''], Directory), ([''r'', ''p'', ''src'', ''p''], Directory)]\<rparr>) \<and>
   WriteFile \<lparr>mkdir_fault = (\<lambda>path. None), remove_fault = (\<lambda>path. None), open_fault = (\<lambda>path. None), write_fault = (\<lambda>path. Some (ENOSPC, 0))\<rparr>
     \<lparr>cwd = [], tree = [([''r''], Directory), ([''r'', ''p''], Directory),
      ([''r'', ''p'', ''src''], Directory), ([''r'', ''p'', ''src'', ''p''], Directory)]\<rparr> ''/r/p/.envrc'' (envrc_text ''p'' ''/r/p'') =
     (Some ENOSPC, \<lparr>cwd = [], tree = [([''r''], Directory), ([''r'', ''p''], Directory),
      ([''r'', ''p'', ''src''], Directory), ([''r'', ''p'', ''src'', ''p''], Directory),
      ([''r'', ''p'', ''.envrc''], File [])]\<rparr>) \<and>
   MkdirAll \<lparr>mkdir_fault = (\<lambda>path. None), remove_fault = (\<lambda>path. Some EACCES), open_fault = (\<lambda>path. None), write_fault = (\<lambda>path. None)\<rparr>
     \<lparr>cwd = [], tree = [([''r''], Directory), ([''r'', ''p''], Directory),
      ([''r'', ''p'', ''src''], Directory), ([''r'', ''p'', ''src'', ''p''], Directory),
      ([''r'', ''p'', ''.envrc''], File ''old'')]\<rparr> ''/r/p/src/p'' =
     (None, \<lparr>cwd = [], tree = [([''r''], Directory), ([''r'', ''p''], Directory),
      ([''r'', ''p'', ''src''], Directory), ([''r'', ''p'', ''src'', ''p''], Directory),
      ([''r'', ''p'', ''.envrc''], File ''old'')]\<rparr>) \<and>
   Remove \<lparr>mkdir_fault = (\<lambda>path. None), remove_fault = (\<lambda>path. Some EACCES), open_fault = (\<lambda>path. None), write_fault = (\<lambda>path. None)\<rparr>
     \<lparr>cwd = [], tree = [([''r''], Directory), ([''r'', ''p''], Directory),
      ([''r'', ''p'', ''src''], Directory), ([''r'', ''p'', ''src'', ''p''], Directory),
      ([''r'', ''p'', ''.envrc''], File ''old'')]\<rparr> ''/r/p/.envrc'' =
     (Some EACCES, \<lparr>cwd = [], tree = [([''r''], Directory), ([''r'', ''p''], Directory),
      ([''r'', ''p'', ''src''], Directory), ([''r'', ''p'', ''src'', ''p''], Directory),
      ([''r'', ''p'', ''.envrc''], File ''old'')]\<rparr>) \<and>
   WriteFile \<lparr>mkdir_fault = (\<lambda>path. None), remove_fault = (\<lambda>path. Some EACCES), open_fault = (\<lambda>path. None), write_fault = (\<lambda>path. None)\<rparr>
     \<lparr>cwd = [], tree = [([''r''], Directory), ([''r'', ''p''], Directory),
      ([''r'', ''p'', ''src''], Directory), ([''r'', ''p'', ''src'', ''p''], Directory),
      ([''r'', ''p'', ''.envrc''], File ''old'')]\<rparr> ''/r/p/.envrc'' (envrc_text ''p'' ''/r/p'') =
     (None, \<lparr>cwd = [], tree = [([''r''], Directory), ([''r'', ''p''], Directory),
      ([''r'', ''p'', ''src''], Directory), ([''r'', ''p'', ''src'', ''p''], Directory),
      ([''r'', ''p'', ''.envrc''], File (envrc_text ''p'' ''/r/p''))]\<rparr>) \<and>
   fst (Run_1 \<lparr>GoPath_1 = ''/r/p'', ImportPath_1 = ''p'', ProjectName_1 = ''p'', ProjectPath_1 = ''/r/p/src/p''\<rparr>
     \<lparr>mkdir_fault = (\<lambda>path. if path = ''/r/p/src'' then Some EACCES else None), remove_fault = (\<lambda>path. None), open_fault = (\<lambda>path. None), write_fault = (\<lambda>path. None)\<rparr> \<lparr>disk = \<lparr>cwd = [], tree = []\<rparr>, stdout = [], stderr = []\<rparr>) = Some (PathError EACCES) \<and>
   disk (snd (Run_1 \<lparr>GoPath_1 = ''/r/p'', ImportPath_1 = ''p'', ProjectName_1 = ''p'', ProjectPath_1 = ''/r/p/src/p''\<rparr>
     \<lparr>mkdir_fault = (\<lambda>path. if path = ''/r/p/src'' then Some EACCES else None), remove_fault = (\<lambda>path. None), open_fault = (\<lambda>path. None), write_fault = (\<lambda>path. None)\<rparr> \<lparr>disk = \<lparr>cwd = [], tree = []\<rparr>, stdout = [], stderr = []\<rparr>)) =
     \<lparr>cwd = [], tree = [([''r''], Directory), ([''r'', ''p''], Directory)]\<rparr> \<and>
   fst (Run_1 \<lparr>GoPath_1 = ''/r/p'', ImportPath_1 = ''p'', ProjectName_1 = ''p'', ProjectPath_1 = ''/r/p/src/p''\<rparr>
     \<lparr>mkdir_fault = (\<lambda>path. None), remove_fault = (\<lambda>path. None), open_fault = (\<lambda>path. None), write_fault = (\<lambda>path. Some (ENOSPC, 0))\<rparr> \<lparr>disk = \<lparr>cwd = [], tree = []\<rparr>, stdout = [], stderr = []\<rparr>) = Some (PathError ENOSPC) \<and>
   disk (snd (Run_1 \<lparr>GoPath_1 = ''/r/p'', ImportPath_1 = ''p'', ProjectName_1 = ''p'', ProjectPath_1 = ''/r/p/src/p''\<rparr>
     \<lparr>mkdir_fault = (\<lambda>path. None), remove_fault = (\<lambda>path. None), open_fault = (\<lambda>path. None), write_fault = (\<lambda>path. Some (ENOSPC, 0))\<rparr> \<lparr>disk = \<lparr>cwd = [], tree = []\<rparr>, stdout = [], stderr = []\<rparr>)) =
     \<lparr>cwd = [], tree = [([''r''], Directory), ([''r'', ''p''], Directory),
      ([''r'', ''p'', ''src''], Directory), ([''r'', ''p'', ''src'', ''p''], Directory),
      ([''r'', ''p'', ''.envrc''], File [])]\<rparr> \<and>
   fst (Run_1 \<lparr>GoPath_1 = ''/r/p'', ImportPath_1 = ''p'', ProjectName_1 = ''p'', ProjectPath_1 = ''/r/p/src/p''\<rparr>
     \<lparr>mkdir_fault = (\<lambda>path. None), remove_fault = (\<lambda>path. Some EACCES), open_fault = (\<lambda>path. None), write_fault = (\<lambda>path. None)\<rparr>
     \<lparr>disk = \<lparr>cwd = [], tree = [([''r''], Directory), ([''r'', ''p''], Directory),
      ([''r'', ''p'', ''src''], Directory), ([''r'', ''p'', ''src'', ''p''], Directory),
      ([''r'', ''p'', ''.envrc''], File ''old'')]\<rparr>, stdout = [], stderr = []\<rparr>) = None \<and>
   disk (snd (Run_1 \<lparr>GoPath_1 = ''/r/p'', ImportPath_1 = ''p'', ProjectName_1 = ''p'', ProjectPath_1 = ''/r/p/src/p''\<rparr>
     \<lparr>mkdir_fault = (\<lambda>path. None), remove_fault = (\<lambda>path. Some EACCES), open_fault = (\<lambda>path. None), write_fault = (\<lambda>path. None)\<rparr>
     \<lparr>disk = \<lparr>cwd = [], tree = [([''r''], Directory), ([''r'', ''p''], Directory),
      ([''r'', ''p'', ''src''], Directory), ([''r'', ''p'', ''src'', ''p''], Directory),
      ([''r'', ''p'', ''.envrc''], File ''old'')]\<rparr>, stdout = [], stderr = []\<rparr>)) =
     \<lparr>cwd = [], tree = [([''r''], Directory), ([''r'', ''p''], Directory),
      ([''r'', ''p'', ''src''], Directory), ([''r'', ''p'', ''src'', ''p''], Directory),
      ([''r'', ''p'', ''.envrc''], File (envrc_text ''p'' ''/r/p''))]\<rparr> \<and>
   fst (Run_2 \<lparr>GoFmlRoot_2 = ''/r'', ImportPath_2 = ''p'', ProjectName_2 = ''p'', GoFmlPath_2 = ''/r/p'', ProjectPath_2 = ''/r/p/src/p''\<rparr>
     \<lparr>mkdir_fault = (\<lambda>path. if path = ''/r/p/src'' then Some EACCES else None), remove_fault = (\<lambda>path. None), open_fault = (\<lambda>path. None), write_fault = (\<lambda>path. None)\<rparr> \<lparr>disk = \<lparr>cwd = [], tree = []\<rparr>, stdout = [], stderr = []\<rparr>) = Some (PathError EACCES) \<and>
   disk (snd (Run_2 \<lparr>GoFmlRoot_2 = ''/r'', ImportPath_2 = ''p'', ProjectName_2 = ''p'', GoFmlPath_2 = ''/r/p'', ProjectPath_2 = ''/r/p/src/p''\<rparr>
     \<lparr>mkdir_fault = (\<lambda>path. if path = ''/r/p/src'' then Some EACCES else None), remove_fault = (\<lambda>path. None), open_fault = (\<lambda>path. None), write_fault = (\<lambda>path. None)\<rparr> \<lparr>disk = \<lparr>cwd = [], tree = []\<rparr>, stdout = [], stderr = []\<rparr>)) =
     \<lparr>cwd = [], tree = [([''r''], Directory), ([''r'', ''p''], Directory)]\<rparr> \<and>
   fst (Run_2 \<lparr>GoFmlRoot_2 = ''/r'', ImportPath_2 = ''p'', ProjectName_2 = ''p'', GoFmlPath_2 = ''/r/p'', ProjectPath_2 = ''/r/p/src/p''\<rparr>
     \<lparr>mkdir_fault = (\<lambda>path. None), remove_fault = (\<lambda>path. None), open_fault = (\<lambda>path. None), write_fault = (\<lambda>path. Some (ENOSPC, 0))\<rparr> \<lparr>disk = \<lparr>cwd = [], tree = []\<rparr>, stdout = [], stderr = []\<rparr>) = Some (PathError ENOSPC) \<and>
   disk (snd (Run_2 \<lparr>GoFmlRoot_2 = ''/r'', ImportPath_2 = ''p'', ProjectName_2 = ''p'', GoFmlPath_2 = ''/r/p'', ProjectPath_2 = ''/r/p/src/p''\<rparr>
     \<lparr>mkdir_fault = (\<lambda>path. None), remove_fault = (\<lambda>path. None), open_fault = (\<lambda>path. None), write_fault = (\<lambda>path. Some (ENOSPC, 0))\<rparr> \<lparr>disk = \<lparr>cwd = [], tree = []\<rparr>, stdout = [], stderr = []\<rparr>)) =
     \<lparr>cwd = [], tree = [([''r''], Directory), ([''r'', ''p''], Directory),
      ([''r'', ''p'', ''src''], Directory), ([''r'', ''p'', ''src'', ''p''], Directory),
      ([''r'', ''p'', ''.envrc''], File [])]\<rparr> \<and>
   fst (Run_2 \<lparr>GoFmlRoot_2 = ''/r'', ImportPath_2 = ''p'', ProjectName_2 = ''p'', GoFmlPath_2 = ''/r/p'', ProjectPath_2 = ''/r/p/src/p''\<rparr>
     \<lparr>mkdir_fault = (\<lambda>path. None), remove_fault = (\<lambda>path. Some EACCES), open_fault = (\<lambda>path. None), write_fault = (\<lambda>path. None)\<rparr>
     \<lparr>disk = \<lparr>cwd = [], tree = [([''r''], Directory), ([''r'', ''p''], Directory),
      ([''r'', ''p'', ''src''], Directory), ([''r'', ''p'', ''src'', ''p''], Directory),
      ([''r'', ''p'', ''.envrc''], File ''old'')]\<rparr>, stdout = [], stderr = []\<rparr>) = None \<and>
   disk (snd (Run_2 \<lparr>GoFmlRoot_2 = ''/r'', ImportPath_2 = ''p'', ProjectName_2 = ''p'', GoFmlPath_2 = ''/r/p'', ProjectPath_2 = ''/r/p/src/p''\<rparr>
     \<lparr>mkdir_fault = (\<lambda>path. None), remove_fault = (\<lambda>path. Some EACCES), open_fault = (\<lambda>path. None), write_fault = (\<lambda>path. None)\<rparr>
     \<lparr>disk = \<lparr>cwd = [], tree = [([''r''], Directory), ([''r'', ''p''], Directory),
      ([''r'', ''p'', ''src''], Directory), ([''r'', ''p'', ''src'', ''p''], Directory),
      ([''r'', ''p'', ''.envrc''], File ''old'')]\<rparr>, stdout = [], stderr = []\<rparr>)) =
     \<lparr>cwd = [], tree = [([''r''], Directory), ([''r'', ''p''], Directory),
      ([''r'', ''p'', ''src''], Directory), ([''r'', ''p'', ''src'', ''p''], Directory),
      ([''r'', ''p'', ''.envrc''], File (envrc_text ''p'' ''/r/p''))]\<rparr>"
proof -
  define t1 where "t1 = \<lparr>GoPath_1 = ''/r/p'', ImportPath_1 = ''p'', ProjectName_1 = ''p'', ProjectPath_1 = ''/r/p/src/p''\<rparr>"
  define t2 where "t2 = \<lparr>GoFmlRoot_2 = ''/r'', ImportPath_2 = ''p'', ProjectName_2 = ''p'', GoFmlPath_2 = ''/r/p'', ProjectPath_2 = ''/r/p/src/p''\<rparr>"
  define fa :: faults where "fa = \<lparr>mkdir_fault = (\<lambda>path. if path = ''/r/p/src'' then Some EACCES else None), remove_fault = (\<lambda>path. None), open_fault = (\<lambda>path. None), write_fault = (\<lambda>path. None)\<rparr>"
  define fb :: faults where "fb = \<lparr>mkdir_fault = (\<lambda>path. None), remove_fault = (\<lambda>path. None), open_fault = (\<lambda>path. None), write_fault = (\<lambda>path. Some (ENOSPC, 0))\<rparr>"
  define fc :: faults where "fc = \<lparr>mkdir_fault = (\<lambda>path. None), remove_fault = (\<lambda>path. Some EACCES), open_fault = (\<lambda>path. None), write_fault = (\<lambda>path. None)\<rparr>"
  define w0 where "w0 = \<lparr>disk = \<lparr>cwd = [], tree = []\<rparr>, stdout = [], stderr = []\<rparr>"
  define part where "part = \<lparr>cwd = [], tree = [([''r''], Directory), ([''r'', ''p''], Directory)]\<rparr>"
  define dirs where "dirs = \<lparr>cwd = [], tree = [([''r''], Directory), ([''r'', ''p''], Directory),
      ([''r'', ''p'', ''src''], Directory), ([''r'', ''p'', ''src'', ''p''], Directory)]\<rparr>"
  define emptyf where "emptyf = \<lparr>cwd = [], tree = [([''r''], Directory), ([''r'', ''p''], Directory),
      ([''r'', ''p'', ''src''], Directory), ([''r'', ''p'', ''src'', ''p''], Directory),
      ([''r'', ''p'', ''.envrc''], File [])]\<rparr>"
  define old where "old = \<lparr>cwd = [], tree = [([''r''], Directory), ([''r'', ''p''], Directory),
      ([''r'', ''p'', ''src''], Directory), ([''r'', ''p'', ''src'', ''p''], Directory),
      ([''r'', ''p'', ''.envrc''], File ''old'')]\<rparr>"
  define new where "new = \<lparr>cwd = [], tree = [([''r''], Directory), ([''r'', ''p''], Directory),
      ([''r'', ''p'', ''src''], Directory), ([''r'', ''p'', ''src'', ''p''], Directory),
      ([''r'', ''p'', ''.envrc''], File (envrc_text ''p'' ''/r/p''))]\<rparr>"
  define wo where "wo = \<lparr>disk = old, stdout = [], stderr = []\<rparr>"
  note defs = t1_def t2_def fa_def fb_def fc_def w0_def part_def dirs_def emptyf_def
    old_def new_def wo_def
  have a1: "MkdirAll fa (disk w0) (ProjectPath_1 t1) = (Some EACCES, part)"
    unfolding defs by code_simp
  have ra1: "Run_1 t1 fa w0 = (Some (PathError EACCES), w0\<lparr>disk := part, stdout := stdout w0 @ banner_1 t1\<rparr>)"
    by (rule failures_abort [of fa w0 t1 t2, THEN conjunct1, rule_format, OF a1, THEN conjunct1])
  have b1m: "MkdirAll fb (disk w0) (ProjectPath_1 t1) = (None, dirs)"
    unfolding defs by code_simp
  have b1r: "Remove fb dirs (Join [GoPath_1 t1, ''.envrc'']) = (Some ENOENT, dirs)"
    unfolding defs by code_simp
  have b1w: "WriteFile fb dirs (Join [GoPath_1 t1, ''.envrc'']) (envrc_text (ImportPath_1 t1) (GoPath_1 t1)) = (Some ENOSPC, emptyf)"
    unfolding defs by code_simp
  have rb1: "Run_1 t1 fb w0 = (Some (PathError ENOSPC), w0\<lparr>disk := emptyf, stdout := stdout w0 @ banner_1 t1 @ [''gofml: wrote activation script at '' @ Join [GoPath_1 t1, ''.envrc''] @ ''\<newline>'']\<rparr>)"
    by (rule failures_abort [of fb w0 t1 t2, THEN conjunct2, THEN conjunct1, rule_format, OF b1m b1r b1w, THEN conjunct1])
  have c1m: "MkdirAll fc (disk wo) (ProjectPath_1 t1) = (None, old)"
    unfolding defs by code_simp
  have c1r: "Remove fc old (Join [GoPath_1 t1, ''.envrc'']) = (Some EACCES, old)"
    unfolding defs by code_simp
  have c1w: "WriteFile fc old (Join [GoPath_1 t1, ''.envrc'']) (envrc_text (ImportPath_1 t1) (GoPath_1 t1)) = (None, new)"
    unfolding defs by code_simp
  have rc1: "Run_1 t1 fc wo = (None, wo\<lparr>disk := new, stdout := stdout wo @ banner_1 t1 @ [''gofml: wrote activation script at '' @ Join [GoPath_1 t1, ''.envrc''] @ ''\<newline>''] @ closing_1 t1\<rparr>)"
    by (rule failures_abort [of fc wo t1 t2, THEN conjunct2, THEN conjunct2, THEN conjunct1, rule_format, OF c1m c1r c1w])
  have a2: "MkdirAll fa (disk w0) (ProjectPath_2 t2) = (Some EACCES, part)"
    unfolding defs by code_simp
  have ra2: "Run_2 t2 fa w0 = (Some (PathError EACCES), w0\<lparr>disk := part, stdout := stdout w0 @ banner_2 t2\<rparr>)"
    by (rule failures_abort [of fa w0 t1 t2, THEN conjunct2, THEN conjunct2, THEN conjunct2, THEN conjunct1, rule_format, OF a2, THEN conjunct1])
  have b2m: "MkdirAll fb (disk w0) (ProjectPath_2 t2) = (None, dirs)"
    unfolding defs by code_simp
  have b2r: "Remove fb dirs (Join [GoFmlPath_2 t2, ''.envrc'']) = (Some ENOENT, dirs)"
    unfolding defs by code_simp
  have b2w: "WriteFile fb dirs (Join [GoFmlPath_2 t2, ''.envrc'']) (envrc_text (ImportPath_2 t2) (GoFmlPath_2 t2)) = (Some ENOSPC, emptyf)"
    unfolding defs by code_simp
  have rb2: "Run_2 t2 fb w0 = (Some (PathError ENOSPC), w0\<lparr>disk := emptyf, stdout := stdout w0 @ banner_2 t2 @ [''gofml: wrote activation script at '' @ Join [GoFmlPath_2 t2, ''.envrc''] @ ''\<newline>'']\<rparr>)"
    by (rule failures_abort [of fb w0 t1 t2, THEN conjunct2, THEN conjunct2, THEN conjunct2, THEN conjunct2, THEN conjunct1, rule_format, OF b2m b2r b2w, THEN conjunct1])
  have c2m: "MkdirAll fc (disk wo) (ProjectPath_2 t2) = (None, old)"
    unfolding defs by code_simp
  have c2r: "Remove fc old (Join [GoFmlPath_2 t2, ''.envrc'']) = (Some EACCES, old)"
    unfolding defs by code_simp
  have c2w: "WriteFile fc old (Join [GoFmlPath_2 t2, ''.envrc'']) (envrc_text (ImportPath_2 t2) (GoFmlPath_2 t2)) = (None, new)"
    unfolding defs by code_simp
  have rc2: "Run_2 t2 fc wo = (None, wo\<lparr>disk := new, stdout := stdout wo @ banner_2 t2 @ [''gofml: wrote activation script at '' @ Join [GoFmlPath_2 t2, ''.envrc''] @ ''\<newline>''] @ closing_2 t2\<rparr>)"
    by (rule failures_abort [of fc wo t1 t2, THEN conjunct2, THEN conjunct2, THEN conjunct2, THEN conjunct2, THEN conjunct2, rule_format, OF c2m c2r c2w])
  have h: "MkdirAll fa \<lparr>cwd = [], tree = []\<rparr> ''/r/p/src/p'' = (Some EACCES, part)"
    "MkdirAll fb \<lparr>cwd = [], tree = []\<rparr> ''/r/p/src/p'' = (None, dirs)"
    "Remove fb dirs ''/r/p/.envrc'' = (Some ENOENT, dirs)"
    "WriteFile fb dirs ''/r/p/.envrc'' (envrc_text ''p'' ''/r/p'') = (Some ENOSPC, emptyf)"
    "MkdirAll fc old ''/r/p/src/p'' = (None, old)"
    "Remove fc old ''/r/p/.envrc'' = (Some EACCES, old)"
    "WriteFile fc old ''/r/p/.envrc'' (envrc_text ''p'' ''/r/p'') = (None, new)"
    unfolding defs by code_simp+
  show ?thesis
    using h ra1 rb1 rc1 ra2 rb2 rc2
    unfolding t1_def [symmetric] t2_def [symmetric] fa_def [symmetric] fb_def [symmetric]
      fc_def [symmetric] part_def [symmetric] dirs_def [symmetric] emptyf_def [symmetric]
      old_def [symmetric] new_def [symmetric] w0_def [symmetric] wo_def [symmetric]
    by (simp add: w0_def wo_def)
qed

text \<open>
  The claim as stated fails: a failure of the removal other than a missing file is
  ignored as well. When the removal is denied (the directory of the script cannot be
  written) and the script itself can be written, the run succeeds. When the path of the
  script is a directory that is not empty, the removal fails, the write is attempted
  all the same, and the error returned is the one of the write.
\<close>

theorem failures_abort_counterexample:
  "MkdirAll \<lparr>mkdir_fault = (\<lambda>path. None), remove_fault = (\<lambda>path. Some EACCES), open_fault = (\<lambda>path. None), write_fault = (\<lambda>path. None)\<rparr>
     \<lparr>cwd = [], tree = [([''r''], Directory), ([''r'', ''p''], Directory),
      ([''r'', ''p'', ''src''], Directory), ([''r'', ''p'', ''src'', ''p''], Directory),
      ([''r'', ''p'', ''.envrc''], File ''old'')]\<rparr> ''/r/p/src/p'' =
     (None, \<lparr>cwd = [], tree = [([''r''], Directory), ([''r'', ''p''], Directory),
      ([''r'', ''p'', ''src''], Directory), ([''r'', ''p'', ''src'', ''p''], Directory),
      ([''r'', ''p'', ''.envrc''], File ''old'')]\<rparr>) \<and>
   Remove \<lparr>mkdir_fault = (\<lambda>path. None), remove_fault = (\<lambda>path. Some EACCES), open_fault = (\<lambda>path. None), write_fault = (\<lambda>path. None)\<rparr>
     \<lparr>cwd = [], tree = [([''r''], Directory), ([''r'', ''p''], Directory),
      ([''r'', ''p'', ''src''], Directory), ([''r'', ''p'', ''src'', ''p''], Directory),
      ([''r'', ''p'', ''.envrc''], File ''old'')]\<rparr> ''/r/p/.envrc'' =
     (Some EACCES, \<lparr>cwd = [], tree = [([''r''], Directory), ([''r'', ''p''], Directory),
      ([''r'', ''p'', ''src''], Directory), ([''r'', ''p'', ''src'', ''p''], Directory),
      ([''r'', ''p'', ''.envrc''], File ''old'')]\<rparr>) \<and>
   EACCES \<noteq> ENOENT \<and>
   fst (Run_1 \<lparr>GoPath_1 = ''/r/p'', ImportPath_1 = ''p'', ProjectName_1 = ''p'', ProjectPath_1 = ''/r/p/src/p''\<rparr>
     \<lparr>mkdir_fault = (\<lambda>path. None), remove_fault = (\<lambda>path. Some EACCES), open_fault = (\<lambda>path. None), write_fault = (\<lambda>path. None)\<rparr>
     \<lparr>disk = \<lparr>cwd = [], tree = [([''r''], Directory), ([''r'', ''p''], Directory),
      ([''r'', ''p'', ''src''], Directory), ([''r'', ''p'', ''src'', ''p''], Directory),
      ([''r'', ''p'', ''.envrc''], File ''old'')]\<rparr>, stdout = [], stderr = []\<rparr>) = None \<and>
   fst (Run_2 \<lparr>GoFmlRoot_2 = ''/r'', ImportPath_2 = ''p'', ProjectName_2 = ''p'', GoFmlPath_2 = ''/r/p'', ProjectPath_2 = ''/r/p/src/p''\<rparr>
     \<lparr>mkdir_fault = (\<lambda>path. None), remove_fault = (\<lambda>path. Some EACCES), open_fault = (\<lambda>path. None), write_fault = (\<lambda>path. None)\<rparr>
     \<lparr>disk = \<lparr>cwd = [], tree = [([''r''], Directory), ([''r'', ''p''], Directory),
      ([''r'', ''p'', ''src''], Directory), ([''r'', ''p'', ''src'', ''p''], Directory),
      ([''r'', ''p'', ''.envrc''], File ''old'')]\<rparr>, stdout = [], stderr = []\<rparr>) = None \<and>
   Remove no_faults
     \<lparr>cwd = [], tree = [([''r''], Directory), ([''r'', ''p''], Directory),
      ([''r'', ''p'', ''src''], Directory), ([''r'', ''p'', ''src'', ''p''], Directory),
      ([''r'', ''p'', ''.envrc''], Directory), ([''r'', ''p'', ''.envrc'', ''keep''], File ''x'')]\<rparr> ''/r/p/.envrc'' =
     (Some ENOTEMPTY, \<lparr>cwd = [], tree = [([''r''], Directory), ([''r'', ''p''], Directory),
      ([''r'', ''p'', ''src''], Directory), ([''r'', ''p'', ''src'', ''p''], Directory),
      ([''r'', ''p'', ''.envrc''], Directory), ([''r'', ''p'', ''.envrc'', ''keep''], File ''x'')]\<rparr>) \<and>
   fst (Run_1 \<lparr>GoPath_1 = ''/r/p'', ImportPath_1 = ''p'', ProjectName_1 = ''p'', ProjectPath_1 = ''/r/p/src/p''\<rparr> no_faults
     \<lparr>disk = \<lparr>cwd = [], tree = [([''r''], Directory), ([''r'', ''p''], Directory),
      ([''r'', ''p'', ''src''], Directory), ([''r'', ''p'', ''src'', ''p''], Directory),
      ([''r'', ''p'', ''.envrc''], Directory), ([''r'', ''p'', ''.envrc'', ''keep''], File ''x'')]\<rparr>, stdout = [], stderr = []\<rparr>) = Some (PathError EISDIR) \<and>
   fst (Run_2 \<lparr>GoFmlRoot_2 = ''/r'', ImportPath_2 = ''p'', ProjectName_2 = ''p'', GoFmlPath_2 = ''/r/p'', ProjectPath_2 = ''/r/p/src/p''\<rparr> no_faults
     \<lparr>disk = \<lparr>cwd = [], tree = [([''r''], Directory), ([''r'', ''p''], Directory),
      ([''r'', ''p'', ''src''], Directory), ([''r'', ''p'', ''src'', ''p''], Directory),
      ([''r'', ''p'', ''.envrc''], Directory), ([''r'', ''p'', ''.envrc'', ''keep''], File ''x'')]\<rparr>, stdout = [], stderr = []\<rparr>) = Some (PathError EISDIR)"
  by code_simp

section \<open>The dispatcher\<close>

lemma commands_1:
  "map_of (commands [initCommand_1, helpCommand help]) a =
     (if a = ''help'' then Some (helpCommand help)
      else if a = ''init'' then Some initCommand_1 else None)"
  by (simp add: commands_def initCommand_1_def helpCommand_def)

lemma commands_2:
  "map_of (commands [initCommand_2 env, helpCommand help]) a =
     (if a = ''help'' then Some (helpCommand help)
      else if a = ''init'' then Some (initCommand_2 env) else None)"
  by (simp add: commands_def initCommand_2_def helpCommand_def)

lemma Main_unrecognized:
  assumes "Parse CommandLine argv = Inr (g, a # rest)" and "map_of cmds a = None"
    and "a \<noteq> ''help''"
  shows "Main cmds flt argv w =
     (1, w\<lparr>stderr := stderr w @ [UnrecognizedCommand a, UsageText]\<rparr>)"
  using assms by (simp add: Main_def)

lemma Main_factory_failed:
  assumes "Parse CommandLine argv = Inr (g, a # rest)" and "map_of cmds a = Some cmd"
    and "a \<noteq> ''help''" and "GetTask cmd rest = Fails e"
  shows "Main cmds flt argv w =
     (1, w\<lparr>stderr := stderr w @
           [FailedToParseCommand (Name cmd) (Usage cmd) (Short cmd) (Long cmd)]\<rparr>)"
  using assms by (simp add: Main_def)

lemma Main_factory_exits:
  assumes "Parse CommandLine argv = Inr (g, a # rest)" and "map_of cmds a = Some cmd"
    and "a \<noteq> ''help''" and "GetTask cmd rest = Exits e"
  shows "Main cmds flt argv w =
     (flag_exit_status e, w\<lparr>stderr := stderr w @ flag_failure (Name cmd) e\<rparr>)"
  using assms by (simp add: Main_def)

text \<open>
  Claim C8, as amended. When the flags of the command line parse and the first
  argument they leave is not a registered command name, the dispatcher writes the error
  that names that argument and the usage text to standard error, exits with status 1,
  and leaves the file system and standard output as they were. This holds with either
  implementation of init in the registry.
\<close>

theorem unrecognized_command:
  "(\<forall>g a rest. Parse CommandLine argv = Inr (g, a # rest) \<longrightarrow>
      map_of (commands [initCommand_1, helpCommand help]) a = None \<longrightarrow>
      Main_1 help flt argv w =
        (1, w\<lparr>stderr := stderr w @ [UnrecognizedCommand a, UsageText]\<rparr>)) \<and>
   (\<forall>g a rest. Parse CommandLine argv = Inr (g, a # rest) \<longrightarrow>
      map_of (commands [initCommand_2 env, helpCommand help]) a = None \<longrightarrow>
      Main_2 env help flt argv w =
        (1, w\<lparr>stderr := stderr w @ [UnrecognizedCommand a, UsageText]\<rparr>))"
proof (intro conjI allI impI)
  fix g a rest
  assume p: "Parse CommandLine argv = Inr (g, a # rest)"
    and n: "map_of (commands [initCommand_1, helpCommand help]) a = None"
  have "a \<noteq> ''help''"
    using n by (auto simp: commands_1)
  then show "Main_1 help flt argv w =
        (1, w\<lparr>stderr := stderr w @ [UnrecognizedCommand a, UsageText]\<rparr>)"
    unfolding Main_1_def by (rule Main_unrecognized [OF p n])
next
  fix g a rest
  assume p: "Parse CommandLine argv = Inr (g, a # rest)"
    and n: "map_of (commands [initCommand_2 env, helpCommand help]) a = None"
  have "a \<noteq> ''help''"
    using n by (auto simp: commands_2)
  then show "Main_2 env help flt argv w =
        (1, w\<lparr>stderr := stderr w @ [UnrecognizedCommand a, UsageText]\<rparr>)"
    unfolding Main_2_def by (rule Main_unrecognized [OF p n])
qed

theorem unrecognized_command_witness:
  "Parse CommandLine [''remove'', ''example.com/foo''] =
     Inr (CommandLine, [''remove'', ''example.com/foo'']) \<and>
   map_of (commands [initCommand_1, helpCommand no_help]) ''remove'' = None \<and>
   Main_1 no_help no_faults [''remove'', ''example.com/foo'']
       \<lparr>disk = \<lparr>cwd = [], tree = [([''etc''], Directory)]\<rparr>, stdout = [], stderr = []\<rparr> =
     (1, \<lparr>disk = \<lparr>cwd = [], tree = [([''etc''], Directory)]\<rparr>, stdout = [], stderr = [UnrecognizedCommand ''remove'', UsageText]\<rparr>) \<and>
   map_of (commands [initCommand_2 Map.empty, helpCommand no_help]) ''remove'' = None \<and>
   Main_2 Map.empty no_help no_faults [''remove'', ''example.com/foo'']
       \<lparr>disk = \<lparr>cwd = [], tree = [([''etc''], Directory)]\<rparr>, stdout = [], stderr = []\<rparr> =
     (1, \<lparr>disk = \<lparr>cwd = [], tree = [([''etc''], Directory)]\<rparr>, stdout = [], stderr = [UnrecognizedCommand ''remove'', UsageText]\<rparr>)"
proof -
  have p: "Parse CommandLine [''remove'', ''example.com/foo''] =
     Inr (CommandLine, [''remove'', ''example.com/foo''])"
    by code_simp
  have n1: "map_of (commands [initCommand_1, helpCommand no_help]) ''remove'' = None"
    by (simp add: commands_1)
  have n2: "map_of (commands [initCommand_2 Map.empty, helpCommand no_help]) ''remove'' = None"
    by (simp add: commands_2)
  show ?thesis
    using unrecognized_command [of "[''remove'', ''example.com/foo'']"
        no_help no_faults
        "\<lparr>disk = \<lparr>cwd = [], tree = [([''etc''], Directory)]\<rparr>, stdout = [], stderr = []\<rparr>" Map.empty] p n1 n2
    by simp
qed

text \<open>
  The claim as stated fails for the argument vector itself: a double minus in front is
  no registered command name, the flag parsing of the command line drops it, and init
  runs and writes.
\<close>

theorem unrecognized_command_counterexample:
  "map_of (commands [initCommand_2 Map.empty, helpCommand no_help]) ''--'' = None \<and>
   fst (Main_2 Map.empty no_help no_faults
          [''--'', ''init'', ''example.com/foo'']
          \<lparr>disk = \<lparr>cwd = [], tree = []\<rparr>, stdout = [], stderr = []\<rparr>) = 0 \<and>
   tree (disk (snd (Main_2 Map.empty no_help no_faults
          [''--'', ''init'', ''example.com/foo'']
          \<lparr>disk = \<lparr>cwd = [], tree = []\<rparr>, stdout = [], stderr = []\<rparr>))) \<noteq> [] \<and>
   stderr (snd (Main_2 Map.empty no_help no_faults
          [''--'', ''init'', ''example.com/foo'']
          \<lparr>disk = \<lparr>cwd = [], tree = []\<rparr>, stdout = [], stderr = []\<rparr>)) = [] \<and>
   map_of (commands [initCommand_1, helpCommand no_help]) ''--'' = None \<and>
   fst (Main_1 no_help no_faults
          [''--'', ''init'', ''example.com/foo'']
          \<lparr>disk = \<lparr>cwd = [], tree = []\<rparr>, stdout = [], stderr = []\<rparr>) = 0 \<and>
   tree (disk (snd (Main_1 no_help no_faults
          [''--'', ''init'', ''example.com/foo'']
          \<lparr>disk = \<lparr>cwd = [], tree = []\<rparr>, stdout = [], stderr = []\<rparr>))) \<noteq> []"
proof -
  have n1: "map_of (commands [initCommand_1, helpCommand no_help]) ''--'' = None"
    by (simp add: commands_1)
  have n2: "map_of (commands [initCommand_2 Map.empty, helpCommand no_help]) ''--'' = None"
    by (simp add: commands_2)
  have "fst (Main_2 Map.empty no_help no_faults
          [''--'', ''init'', ''example.com/foo'']
          \<lparr>disk = \<lparr>cwd = [], tree = []\<rparr>, stdout = [], stderr = []\<rparr>) = 0"
    by code_simp
  moreover have "tree (disk (snd (Main_2 Map.empty no_help no_faults
          [''--'', ''init'', ''example.com/foo'']
          \<lparr>disk = \<lparr>cwd = [], tree = []\<rparr>, stdout = [], stderr = []\<rparr>))) \<noteq> []"
    by code_simp
  moreover have "stderr (snd (Main_2 Map.empty no_help no_faults
          [''--'', ''init'', ''example.com/foo'']
          \<lparr>disk = \<lparr>cwd = [], tree = []\<rparr>, stdout = [], stderr = []\<rparr>)) = []"
    by code_simp
  moreover have "fst (Main_1 no_help no_faults
          [''--'', ''init'', ''example.com/foo'']
          \<lparr>disk = \<lparr>cwd = [], tree = []\<rparr>, stdout = [], stderr = []\<rparr>) = 0"
    by code_simp
  moreover have "tree (disk (snd (Main_1 no_help no_faults
          [''--'', ''init'', ''example.com/foo'']
          \<lparr>disk = \<lparr>cwd = [], tree = []\<rparr>, stdout = [], stderr = []\<rparr>))) \<noteq> []"
    by code_simp
  ultimately show ?thesis
    using n1 n2 by blast
qed

text \<open>
  Claim C5, as amended. Invoking init with no positional import path writes nothing
  to the file system and nothing to standard output. When the flags of init parse,
  \<open>NewInitTask\<close> returns the error \<open>no import path specified\<close> and no task, the
  dispatcher writes the message \<open>gofml: failed to parse command\<close> with the descriptor of
  init, which holds the usage line and the help texts of the command, to standard
  error, and exits with status 1. When the flags of init do not parse, \<open>NewInitTask\<close>
  does not return: the flag package writes its error and the usage of the flag set and
  ends the process, with status 0 for a help request and 2 otherwise. This holds for
  both implementations.
\<close>

theorem missing_import_path:
  "(\<forall>g rest f. Parse CommandLine argv = Inr (g, ''init'' # rest) \<longrightarrow>
      Parse flags_1 rest = Inr (f, []) \<longrightarrow>
      NewInitTask_1 rest = Fails (ErrorString ''no import path specified'') \<and>
      Main_1 help flt argv w =
        (1, w\<lparr>stderr := stderr w @
              [FailedToParseCommand ''init'' ''init [-g][-p][-n] [import path]''
                 ''initialize a gofml'' Long_1]\<rparr>)) \<and>
   (\<forall>g rest e. Parse CommandLine argv = Inr (g, ''init'' # rest) \<longrightarrow>
      Parse flags_1 rest = Inl e \<longrightarrow>
      NewInitTask_1 rest = Exits e \<and>
      Main_1 help flt argv w =
        (flag_exit_status e, w\<lparr>stderr := stderr w @ flag_failure ''init'' e\<rparr>)) \<and>
   (\<forall>g rest f. Parse CommandLine argv = Inr (g, ''init'' # rest) \<longrightarrow>
      Parse (flags_2 env) rest = Inr (f, []) \<longrightarrow>
      NewInitTask_2 env rest = Fails (ErrorString ''no import path specified'') \<and>
      Main_2 env help flt argv w =
        (1, w\<lparr>stderr := stderr w @
              [FailedToParseCommand ''init'' ''init [-g][-n] [import path]''
                 ''initialize a gofml env'' (Long_2 env)]\<rparr>)) \<and>
   (\<forall>g rest e. Parse CommandLine argv = Inr (g, ''init'' # rest) \<longrightarrow>
      Parse (flags_2 env) rest = Inl e \<longrightarrow>
      NewInitTask_2 env rest = Exits e \<and>
      Main_2 env help flt argv w =
        (flag_exit_status e, w\<lparr>stderr := stderr w @ flag_failure ''init'' e\<rparr>))"
proof (intro conjI allI impI)
  fix g rest f
  assume p: "Parse CommandLine argv = Inr (g, ''init'' # rest)"
    and q: "Parse flags_1 rest = Inr (f, [])"
  show f: "NewInitTask_1 rest = Fails (ErrorString ''no import path specified'')"
    using q by (simp add: NewInitTask_1_parsed)
  have "Main (commands [initCommand_1, helpCommand help]) flt argv w =
      (1, w\<lparr>stderr := stderr w @
            [FailedToParseCommand (Name initCommand_1) (Usage initCommand_1)
               (Short initCommand_1) (Long initCommand_1)]\<rparr>)"
  proof (rule Main_factory_failed [OF p])
    show "map_of (commands [initCommand_1, helpCommand help]) ''init'' = Some initCommand_1"
      by (simp add: commands_1)
    show "''init'' \<noteq> ''help''"
      by simp
    show "GetTask initCommand_1 rest = Fails (ErrorString ''no import path specified'')"
      by (simp add: initCommand_1_def map_outcome_def f)
  qed
  then show "Main_1 help flt argv w =
        (1, w\<lparr>stderr := stderr w @
              [FailedToParseCommand ''init'' ''init [-g][-p][-n] [import path]''
                 ''initialize a gofml'' Long_1]\<rparr>)"
    by (simp add: Main_1_def initCommand_1_def)
next
  fix g rest e
  assume p: "Parse CommandLine argv = Inr (g, ''init'' # rest)"
    and q: "Parse flags_1 rest = Inl e"
  show f: "NewInitTask_1 rest = Exits e"
    using q by (simp add: NewInitTask_1_parsed)
  have "Main (commands [initCommand_1, helpCommand help]) flt argv w =
      (flag_exit_status e, w\<lparr>stderr := stderr w @ flag_failure (Name initCommand_1) e\<rparr>)"
  proof (rule Main_factory_exits [OF p])
    show "map_of (commands [initCommand_1, helpCommand help]) ''init'' = Some initCommand_1"
      by (simp add: commands_1)
    show "''init'' \<noteq> ''help''"
      by simp
    show "GetTask initCommand_1 rest = Exits e"
      by (simp add: initCommand_1_def map_outcome_def f)
  qed
  then show "Main_1 help flt argv w =
        (flag_exit_status e, w\<lparr>stderr := stderr w @ flag_failure ''init'' e\<rparr>)"
    by (simp add: Main_1_def initCommand_1_def)
next
  fix g rest f
  assume p: "Parse CommandLine argv = Inr (g, ''init'' # rest)"
    and q: "Parse (flags_2 env) rest = Inr (f, [])"
  show f: "NewInitTask_2 env rest = Fails (ErrorString ''no import path specified'')"
    using q by (simp add: NewInitTask_2_parsed)
  have "Main (commands [initCommand_2 env, helpCommand help]) flt argv w =
      (1, w\<lparr>stderr := stderr w @
            [FailedToParseCommand (Name (initCommand_2 env)) (Usage (initCommand_2 env))
               (Short (initCommand_2 env)) (Long (initCommand_2 env))]\<rparr>)"
  proof (rule Main_factory_failed [OF p])
    show "map_of (commands [initCommand_2 env, helpCommand help]) ''init'' = Some (initCommand_2 env)"
      by (simp add: commands_2)
    show "''init'' \<noteq> ''help''"
      by simp
    show "GetTask (initCommand_2 env) rest = Fails (ErrorString ''no import path specified'')"
      by (simp add: initCommand_2_def map_outcome_def f)
  qed
  then show "Main_2 env help flt argv w =
        (1, w\<lparr>stderr := stderr w @
              [FailedToParseCommand ''init'' ''init [-g][-n] [import path]''
                 ''initialize a gofml env'' (Long_2 env)]\<rparr>)"
    by (simp add: Main_2_def initCommand_2_def)
next
  fix g rest e
  assume p: "Parse CommandLine argv = Inr (g, ''init'' # rest)"
    and q: "Parse (flags_2 env) rest = Inl e"
  show f: "NewInitTask_2 env rest = Exits e"
    using q by (simp add: NewInitTask_2_parsed)
  have "Main (commands [initCommand_2 env, helpCommand help]) flt argv w =
      (flag_exit_status e,
       w\<lparr>stderr := stderr w @ flag_failure (Name (initCommand_2 env)) e\<rparr>)"
  proof (rule Main_factory_exits [OF p])
    show "map_of (commands [initCommand_2 env, helpCommand help]) ''init'' = Some (initCommand_2 env)"
      by (simp add: commands_2)
    show "''init'' \<noteq> ''help''"
      by simp
    show "GetTask (initCommand_2 env) rest = Exits e"
      by (simp add: initCommand_2_def map_outcome_def f)
  qed
  then show "Main_2 env help flt argv w =
        (flag_exit_status e, w\<lparr>stderr := stderr w @ flag_failure ''init'' e\<rparr>)"
    by (simp add: Main_2_def initCommand_2_def)
qed

theorem missing_import_path_witness:
  "Parse CommandLine [''init'', ''-n'', ''foo''] = Inr (CommandLine, [''init'', ''-n'', ''foo'']) \<and>
   Parse flags_1 [''-n'', ''foo''] =
     Inr (\<lparr>formal = [(''g'', []), (''n'', ''foo''), (''p'', [])], actual = [''n'']\<rparr>, []) \<and>
   NewInitTask_1 [''-n'', ''foo''] = Fails (ErrorString ''no import path specified'') \<and>
   Main_1 no_help no_faults [''init'', ''-n'', ''foo'']
       \<lparr>disk = \<lparr>cwd = [], tree = [([''etc''], Directory)]\<rparr>, stdout = [], stderr = []\<rparr> =
     (1, \<lparr>disk = \<lparr>cwd = [], tree = [([''etc''], Directory)]\<rparr>, stdout = [], stderr = [FailedToParseCommand ''init'' ''init [-g][-p][-n] [import path]''
            ''initialize a gofml'' Long_1]\<rparr>) \<and>
   Parse (flags_2 Map.empty) [''-n'', ''foo''] =
     Inr (\<lparr>formal = [(''g'', ''~/gofml''), (''n'', ''foo'')], actual = [''n'']\<rparr>, []) \<and>
   NewInitTask_2 Map.empty [''-n'', ''foo''] = Fails (ErrorString ''no import path specified'') \<and>
   Main_2 Map.empty no_help no_faults [''init'', ''-n'', ''foo'']
       \<lparr>disk = \<lparr>cwd = [], tree = [([''etc''], Directory)]\<rparr>, stdout = [], stderr = []\<rparr> =
     (1, \<lparr>disk = \<lparr>cwd = [], tree = [([''etc''], Directory)]\<rparr>, stdout = [], stderr = [FailedToParseCommand ''init'' ''init [-g][-n] [import path]''
            ''initialize a gofml env'' (Long_2 Map.empty)]\<rparr>) \<and>
   Parse CommandLine [''init'', ''-x''] = Inr (CommandLine, [''init'', ''-x'']) \<and>
   Parse flags_1 [''-x''] = Inl (NotDefined ''x'') \<and>
   NewInitTask_1 [''-x''] = Exits (NotDefined ''x'') \<and>
   Main_1 no_help no_faults [''init'', ''-x'']
       \<lparr>disk = \<lparr>cwd = [], tree = [([''etc''], Directory)]\<rparr>, stdout = [], stderr = []\<rparr> =
     (2, \<lparr>disk = \<lparr>cwd = [], tree = [([''etc''], Directory)]\<rparr>, stdout = [], stderr = [FlagErrorMessage (NotDefined ''x''), FlagSetUsage ''init'']\<rparr>) \<and>
   Parse (flags_2 Map.empty) [''-x''] = Inl (NotDefined ''x'') \<and>
   NewInitTask_2 Map.empty [''-x''] = Exits (NotDefined ''x'') \<and>
   Main_2 Map.empty no_help no_faults [''init'', ''-x'']
       \<lparr>disk = \<lparr>cwd = [], tree = [([''etc''], Directory)]\<rparr>, stdout = [], stderr = []\<rparr> =
     (2, \<lparr>disk = \<lparr>cwd = [], tree = [([''etc''], Directory)]\<rparr>, stdout = [], stderr = [FlagErrorMessage (NotDefined ''x''), FlagSetUsage ''init'']\<rparr>)"
proof -
  have p: "Parse CommandLine [''init'', ''-n'', ''foo''] =
      Inr (CommandLine, [''init'', ''-n'', ''foo''])"
    by code_simp
  have q1: "Parse flags_1 [''-n'', ''foo''] =
     Inr (\<lparr>formal = [(''g'', []), (''n'', ''foo''), (''p'', [])], actual = [''n'']\<rparr>, [])"
    by code_simp
  have q2: "Parse (flags_2 Map.empty) [''-n'', ''foo''] =
     Inr (\<lparr>formal = [(''g'', ''~/gofml''), (''n'', ''foo'')], actual = [''n'']\<rparr>, [])"
    by code_simp
  have p': "Parse CommandLine [''init'', ''-x''] = Inr (CommandLine, [''init'', ''-x''])"
    by code_simp
  have x1: "Parse flags_1 [''-x''] = Inl (NotDefined ''x'')"
    by code_simp
  have x2: "Parse (flags_2 Map.empty) [''-x''] = Inl (NotDefined ''x'')"
    by code_simp
  have s: "flag_exit_status (NotDefined ''x'') = 2"
      "flag_failure ''init'' (NotDefined ''x'') =
         [FlagErrorMessage (NotDefined ''x''), FlagSetUsage ''init'']"
    by (simp_all add: flag_exit_status_def flag_failure_def)
  note a = missing_import_path [of "[''init'', ''-n'', ''foo'']" no_help no_faults
        "\<lparr>disk = \<lparr>cwd = [], tree = [([''etc''], Directory)]\<rparr>, stdout = [], stderr = []\<rparr>" Map.empty]
  note b = missing_import_path [of "[''init'', ''-x'']" no_help no_faults
        "\<lparr>disk = \<lparr>cwd = [], tree = [([''etc''], Directory)]\<rparr>, stdout = [], stderr = []\<rparr>" Map.empty]
  have "NewInitTask_1 [''-n'', ''foo''] = Fails (ErrorString ''no import path specified'') \<and>
      Main_1 no_help no_faults [''init'', ''-n'', ''foo'']
       \<lparr>disk = \<lparr>cwd = [], tree = [([''etc''], Directory)]\<rparr>, stdout = [], stderr = []\<rparr> =
     (1, \<lparr>disk = \<lparr>cwd = [], tree = [([''etc''], Directory)]\<rparr>, stdout = [], stderr = [FailedToParseCommand ''init'' ''init [-g][-p][-n] [import path]''
            ''initialize a gofml'' Long_1]\<rparr>)"
    using a [THEN conjunct1, rule_format, OF p q1] by simp
  moreover have "NewInitTask_2 Map.empty [''-n'', ''foo''] =
        Fails (ErrorString ''no import path specified'') \<and>
      Main_2 Map.empty no_help no_faults [''init'', ''-n'', ''foo'']
       \<lparr>disk = \<lparr>cwd = [], tree = [([''etc''], Directory)]\<rparr>, stdout = [], stderr = []\<rparr> =
     (1, \<lparr>disk = \<lparr>cwd = [], tree = [([''etc''], Directory)]\<rparr>, stdout = [], stderr = [FailedToParseCommand ''init'' ''init [-g][-n] [import path]''
            ''initialize a gofml env'' (Long_2 Map.empty)]\<rparr>)"
    using a [THEN conjunct2, THEN conjunct2, THEN conjunct1, rule_format, OF p q2] by simp
  moreover have "NewInitTask_1 [''-x''] = Exits (NotDefined ''x'') \<and>
      Main_1 no_help no_faults [''init'', ''-x'']
       \<lparr>disk = \<lparr>cwd = [], tree = [([''etc''], Directory)]\<rparr>, stdout = [], stderr = []\<rparr> =
     (2, \<lparr>disk = \<lparr>cwd = [], tree = [([''etc''], Directory)]\<rparr>, stdout = [], stderr = [FlagErrorMessage (NotDefined ''x''), FlagSetUsage ''init'']\<rparr>)"
    using b [THEN conjunct2, THEN conjunct1, rule_format, OF p' x1] s by simp
  moreover have "NewInitTask_2 Map.empty [''-x''] = Exits (NotDefined ''x'') \<and>
      Main_2 Map.empty no_help no_faults [''init'', ''-x'']
       \<lparr>disk = \<lparr>cwd = [], tree = [([''etc''], Directory)]\<rparr>, stdout = [], stderr = []\<rparr> =
     (2, \<lparr>disk = \<lparr>cwd = [], tree = [([''etc''], Directory)]\<rparr>, stdout = [], stderr = [FlagErrorMessage (NotDefined ''x''), FlagSetUsage ''init'']\<rparr>)"
    using b [THEN conjunct2, THEN conjunct2, THEN conjunct2, rule_format, OF p' x2] s by simp
  ultimately show ?thesis
    using p q1 q2 p' x1 x2 by simp
qed

text \<open>
  The claim as stated fails when the flags of init do not parse: \<open>init -n\<close> has no
  positional import path, the flag \<open>-n\<close> has no value, and the flag package ends the
  process with status 2 before \<open>NewInitTask\<close> returns an error or anything.
\<close>

theorem missing_import_path_counterexample:
  "Parse CommandLine [''init'', ''-n''] = Inr (CommandLine, [''init'', ''-n'']) \<and>
   NewInitTask_1 [''-n''] = Exits (NeedsArgument ''n'') \<and>
   Main_1 no_help no_faults [''init'', ''-n'']
       \<lparr>disk = \<lparr>cwd = [], tree = []\<rparr>, stdout = [], stderr = []\<rparr> =
     (2, \<lparr>disk = \<lparr>cwd = [], tree = []\<rparr>, stdout = [], stderr = [FlagErrorMessage (NeedsArgument ''n''), FlagSetUsage ''init'']\<rparr>) \<and>
   NewInitTask_2 Map.empty [''-n''] = Exits (NeedsArgument ''n'') \<and>
   Main_2 Map.empty no_help no_faults [''init'', ''-n'']
       \<lparr>disk = \<lparr>cwd = [], tree = []\<rparr>, stdout = [], stderr = []\<rparr> =
     (2, \<lparr>disk = \<lparr>cwd = [], tree = []\<rparr>, stdout = [], stderr = [FlagErrorMessage (NeedsArgument ''n''), FlagSetUsage ''init'']\<rparr>)"
  by code_simp


end
